theory Spec2Isabelle
  imports Complex_Main "HOL-Library.Char_ord" "HOL-Library.List_Lexorder"
    "HOL-Library.Multiset" "HOL-Library.Log_Nat"
begin

section \<open>Calendar dates and their text forms\<close>

text \<open>
  The expense ledger of \<^verbatim>\<open>manajer_anggaran.py\<close> keeps every transaction in one SQLite
  table. A transaction carries a \<^verbatim>\<open>datetime.date\<close>; the ledger writes it into the table as
  the text \<^verbatim>\<open>strftime('%Y-%m-%d')\<close> and the listing shows it as \<^verbatim>\<open>'%d-%m-%Y'\<close>.
  A date is a year, a month and a day; Python only builds dates of the years 1 to 9999 whose
  day exists in the month.
\<close>

record date =
  year :: nat
  month :: nat
  day :: nat

definition is_leap :: "nat \<Rightarrow> bool" where
  "is_leap y = (y mod 4 = 0 \<and> (y mod 100 \<noteq> 0 \<or> y mod 400 = 0))"

definition days_in_month :: "nat \<Rightarrow> nat \<Rightarrow> nat" where
  "days_in_month y m =
     (if m = 2 then (if is_leap y then 29 else 28)
      else if m = 4 \<or> m = 6 \<or> m = 9 \<or> m = 11 then 30 else 31)"

definition valid_date :: "date \<Rightarrow> bool" where
  "valid_date d =
     (1 \<le> year d \<and> year d \<le> 9999 \<and> 1 \<le> month d \<and> month d \<le> 12 \<and>
      1 \<le> day d \<and> day d \<le> days_in_month (year d) (month d))"

text \<open>
  Decimal digits. \<^verbatim>\<open>%m\<close> and \<^verbatim>\<open>%d\<close> are padded with a zero to two digits.
  CPython hands \<^verbatim>\<open>%Y\<close> to the C library, and glibc writes the year as it is, without
  padding: the year 5 is \<^verbatim>\<open>5\<close> and the text of \<^verbatim>\<open>date(5, 1, 1)\<close> is \<^verbatim>\<open>5-01-01\<close>. From the
  year 1000 on the year has its four digits.
\<close>

definition digit :: "nat \<Rightarrow> char" where
  "digit n = char_of (48 + n)"

fun decimal :: "nat \<Rightarrow> string" where
  "decimal n = (if n < 10 then [digit n] else decimal (n div 10) @ [digit (n mod 10)])"

declare decimal.simps [simp del]

definition pad2 :: "nat \<Rightarrow> string" where
  "pad2 n = [digit (n div 10 mod 10), digit (n mod 10)]"

definition pad4 :: "nat \<Rightarrow> string" where
  "pad4 n = pad2 (n div 100) @ pad2 (n mod 100)"

definition strftime_ymd :: "date \<Rightarrow> string" where
  "strftime_ymd d = decimal (year d) @ ''-'' @ pad2 (month d) @ ''-'' @ pad2 (day d)"

text \<open>
  The listing formats with the \<^verbatim>\<open>strftime\<close> of pandas, on dates that pandas holds; these
  have four-digit years (see \<open>to_datetime\<close> below).
\<close>

definition strftime_dmy :: "date \<Rightarrow> string" where
  "strftime_dmy d = pad2 (day d) @ ''-'' @ pad2 (month d) @ ''-'' @ pad4 (year d)"

text \<open>
  The date that a stored text stands for: the valid date that \<open>strftime_ymd\<close> writes as
  this text, if there is one. The last two characters are read as the day, the two before
  the last dash as the month and what stands before the first of the two dashes as the year.
\<close>

definition digit_val :: "char \<Rightarrow> nat option" where
  "digit_val c =
     (let k = (of_char c :: nat) in if 48 \<le> k \<and> k \<le> 57 then Some (k - 48) else None)"

fun number_of :: "string \<Rightarrow> nat option" where
  "number_of [] = Some 0"
| "number_of (c # cs) =
     (case digit_val c of
        None \<Rightarrow> None
      | Some v \<Rightarrow> (case number_of cs of
                     None \<Rightarrow> None
                   | Some w \<Rightarrow> Some (v * 10 ^ length cs + w)))"

definition parse_ymd :: "string \<Rightarrow> date option" where
  "parse_ymd s =
     (let n = length s in
      if 6 < n then
        (case (number_of (take (n - 6) s), number_of (take 2 (drop (n - 5) s)),
               number_of (drop (n - 2) s)) of
           (Some y, Some m, Some d) \<Rightarrow>
             (let dt = \<lparr>year = y, month = m, day = d\<rparr>
              in if valid_date dt \<and> strftime_ymd dt = s then Some dt else None)
         | _ \<Rightarrow> None)
      else None)"

text \<open>
  \<^verbatim>\<open>pd.to_datetime\<close> in the listing. A date from 1677-09-22 to 2262-04-11 fits the 64-bit
  nanosecond instants that every version of pandas can hold, and its text, which has a
  four-digit year, is read as that date. What \<^verbatim>\<open>pd.to_datetime\<close> makes of any other text
  (a date outside these bounds, a year of fewer than four digits, a text that is no date)
  differs between the versions of pandas: some raise and some read it. This is left open: the
  value is not specified, so no theorem can rest on it. The texts of a column are converted
  one by one.
\<close>

definition in_timestamp_bounds :: "date \<Rightarrow> bool" where
  "in_timestamp_bounds d =
     ((1677 < year d \<or> (year d = 1677 \<and> (9 < month d \<or> (month d = 9 \<and> 22 \<le> day d)))) \<and>
      (year d < 2262 \<or> (year d = 2262 \<and> (month d < 4 \<or> (month d = 4 \<and> day d \<le> 11)))))"

definition to_datetime :: "string \<Rightarrow> date option" where
  "to_datetime s =
     (case parse_ymd s of
        None \<Rightarrow> undefined s
      | Some d \<Rightarrow> if in_timestamp_bounds d then Some d else undefined s)"

section \<open>Amounts: IEEE doubles\<close>

text \<open>
  Amounts are Python floats, that is IEEE doubles, kept in a \<^verbatim>\<open>REAL\<close> column. A double is
  modelled by the real number it stands for, and the arithmetic of the engine rounds every
  result to the nearest double, a tie to the double with the even significand. For that the
  binary exponent \<open>e\<close> of a number \<open>x\<close> is needed: \<open>2 ^ e \<le> \<bar>x\<bar> < 2 ^ (e + 1)\<close>. Doubles
  have 53 significant bits, so the doubles around \<open>x\<close> are \<open>2 ^ (e - 52)\<close> apart, and those
  below \<open>2 ^ (- 1022)\<close> are \<open>2 ^ (- 1074)\<close> apart. Infinities and NaN are not modelled: a
  result of magnitude \<open>2 ^ 1024\<close> or more is outside the model, and what is proved of a
  sum is proved where none arises.
\<close>

definition round_even :: "real \<Rightarrow> int" where
  "round_even x =
     (let f = \<lfloor>x\<rfloor>; r = x - of_int f
      in if r < 1 / 2 then f else if 1 / 2 < r then f + 1
         else if even f then f else f + 1)"

definition exponent :: "real \<Rightarrow> int" where
  "exponent x = (if 1 \<le> \<bar>x\<bar> then bitlen \<lfloor>\<bar>x\<bar>\<rfloor> - 1 else - bitlen (\<lceil>1 / \<bar>x\<bar>\<rceil> - 1))"

definition ulp :: "real \<Rightarrow> real" where
  "ulp x = 2 powi (max (exponent x) (- 1022) - 52)"

definition round_double :: "real \<Rightarrow> real" where
  "round_double x = (if x = 0 then 0 else of_int (round_even (x / ulp x)) * ulp x)"

text \<open>
  \<^verbatim>\<open>SUM\<close> over a \<^verbatim>\<open>REAL\<close> column, as SQLite computes it since version 3.43
  (\<^verbatim>\<open>sumStep\<close> and \<^verbatim>\<open>sumFinalize\<close> in \<^verbatim>\<open>func.c\<close>): the Kahan-Babuska-Neumaier summation,
  which keeps a running sum and a running error term, each operation rounded, and returns
  their rounded sum.
\<close>

record sum_ctx =
  rSum :: real
  rErr :: real

definition kahanBabuskaNeumaierStep :: "sum_ctx \<Rightarrow> real \<Rightarrow> sum_ctx" where
  "kahanBabuskaNeumaierStep p r =
     (let s = rSum p; t = round_double (s + r)
      in \<lparr>rSum = t,
          rErr = round_double (rErr p +
                   (if \<bar>r\<bar> < \<bar>s\<bar> then round_double (round_double (s - t) + r)
                    else round_double (round_double (r - t) + s)))\<rparr>)"

definition sqlite_sum :: "real list \<Rightarrow> real" where
  "sqlite_sum xs =
     (let p = foldl kahanBabuskaNeumaierStep \<lparr>rSum = 0, rErr = 0\<rparr> xs
      in round_double (rSum p + rErr p))"

section \<open>Amounts as the listing prints them\<close>

text \<open>
  The listing prints an amount with \<^verbatim>\<open>f"{x:,.0f}".replace(",", ".")\<close>: rounded to a whole
  number, ties to even, the digits in groups of three with a dot between the groups.
\<close>

definition round_half_even :: "real \<Rightarrow> nat" where
  "round_half_even x =
     (let f = \<lfloor>x\<rfloor>; r = x - of_int f
      in nat (if r < 1 / 2 then f else if 1 / 2 < r then f + 1
              else if even f then f else f + 1))"

definition pad3 :: "nat \<Rightarrow> string" where
  "pad3 n = [digit (n div 100 mod 10), digit (n div 10 mod 10), digit (n mod 10)]"

fun grouped :: "nat \<Rightarrow> string" where
  "grouped n =
     (if n < 1000 then decimal n else grouped (n div 1000) @ ''.'' @ pad3 (n mod 1000))"

declare grouped.simps [simp del]

definition format_jumlah :: "real \<Rightarrow> string" where
  "format_jumlah x = (if x < 0 then ''-'' else []) @ grouped (round_half_even \<bar>x\<bar>)"

section \<open>Python values and exceptions\<close>

text \<open>
  \<^verbatim>\<open>execute_query\<close> returns a row identifier, a tuple, a list of tuples, a boolean or
  \<^verbatim>\<open>None\<close>, depending on its flags; its callers test the result for truth and index it.
  The values are one datatype, and the operations on them raise what Python raises.
\<close>

datatype pyval =
    PyNone
  | PyBool bool
  | PyInt int
  | PyFloat real
  | PyStr string
  | PyTuple "pyval list"
  | PyList "pyval list"

datatype py_exception = Sqlite3Error | OverflowError | TypeError | IndexError

fun truthy :: "pyval \<Rightarrow> bool" where
  "truthy PyNone = False"
| "truthy (PyBool b) = b"
| "truthy (PyInt n) = (n \<noteq> 0)"
| "truthy (PyFloat x) = (x \<noteq> 0)"
| "truthy (PyStr s) = (s \<noteq> [])"
| "truthy (PyTuple xs) = (xs \<noteq> [])"
| "truthy (PyList xs) = (xs \<noteq> [])"

fun getitem :: "pyval \<Rightarrow> nat \<Rightarrow> py_exception + pyval" where
  "getitem (PyTuple xs) i = (if i < length xs then Inr (xs ! i) else Inl IndexError)"
| "getitem (PyList xs) i = (if i < length xs then Inr (xs ! i) else Inl IndexError)"
| "getitem (PyStr s) i = (if i < length s then Inr (PyStr [s ! i]) else Inl IndexError)"
| "getitem _ i = Inl TypeError"

fun iterate :: "pyval \<Rightarrow> py_exception + pyval list" where
  "iterate (PyTuple xs) = Inr xs"
| "iterate (PyList xs) = Inr xs"
| "iterate (PyStr s) = Inr (map (\<lambda>c. PyStr [c]) s)"
| "iterate _ = Inl TypeError"

text \<open>
  A dict keeps its keys in the order of their first insertion; storing under a key that is
  already there replaces the value in place. Keys are compared with Python's \<^verbatim>\<open>==\<close>
  (\<^verbatim>\<open>True == 1 == 1.0\<close>), and a list, or a tuple holding one, cannot be a key.
\<close>

fun number :: "pyval \<Rightarrow> real option" where
  "number (PyBool b) = Some (if b then 1 else 0)"
| "number (PyInt n) = Some (of_int n)"
| "number (PyFloat x) = Some x"
| "number _ = None"

fun py_eq :: "pyval \<Rightarrow> pyval \<Rightarrow> bool" where
  "py_eq (PyTuple xs) (PyTuple ys) = list_all2 py_eq xs ys"
| "py_eq (PyList xs) (PyList ys) = list_all2 py_eq xs ys"
| "py_eq a b =
     (case (number a, number b) of
        (Some x, Some y) \<Rightarrow> x = y
      | (None, None) \<Rightarrow> a = b
      | _ \<Rightarrow> False)"

fun hashable :: "pyval \<Rightarrow> bool" where
  "hashable (PyList xs) = False"
| "hashable (PyTuple xs) = list_all hashable xs"
| "hashable _ = True"

type_synonym pydict = "(pyval \<times> pyval) list"

fun store :: "pydict \<Rightarrow> pyval \<Rightarrow> pyval \<Rightarrow> pydict" where
  "store [] k v = [(k, v)]"
| "store ((k', v') # d) k v = (if py_eq k' k then (k', v) # d else (k', v') # store d k v)"

definition setitem :: "pydict \<Rightarrow> pyval \<Rightarrow> pyval \<Rightarrow> py_exception + pydict" where
  "setitem d k v = (if hashable k then Inr (store d k v) else Inl TypeError)"

section \<open>The database file\<close>

text \<open>
  The one table of the program, as \<^verbatim>\<open>_buat_tabel_jika_tidak_ada\<close> declares it:
  \<^verbatim>\<open>transaksi(id INTEGER PRIMARY KEY AUTOINCREMENT, deskripsi TEXT NOT NULL,
  jumlah REAL NOT NULL, kategori TEXT NOT NULL, tanggal DATE NOT NULL)\<close>.
  The database file holds the table once it is created, in insertion order, and the largest
  row identifier the table ever had, which \<^verbatim>\<open>AUTOINCREMENT\<close> keeps across deletions.
  \<open>online\<close> says whether the file can be opened and written; when it cannot,
  every call of the engine raises \<^verbatim>\<open>sqlite3.Error\<close>.
  The declared type \<^verbatim>\<open>DATE\<close> gives the column \<^verbatim>\<open>tanggal\<close> numeric affinity, which leaves
  a text that spells no number as it is. Every text the program binds there is a date
  written by \<^verbatim>\<open>strftime\<close>, with its two hyphens, so the column holds texts.
\<close>

record row =
  col_id :: int
  col_deskripsi :: string
  col_jumlah :: real
  col_kategori :: string
  col_tanggal :: string

record database =
  online :: bool
  tabel :: "row list option"
  sequence :: int

text \<open>
  A statement is one of the SQL texts of the source together with the parameters bound to
  its \<^verbatim>\<open>?\<close> marks:
  \<^item> \<open>CreateTable\<close>: \<^verbatim>\<open>CREATE TABLE IF NOT EXISTS transaksi (...)\<close>
  \<^item> \<open>InsertTransaksi d j k t\<close>:
    \<^verbatim>\<open>INSERT INTO transaksi (deskripsi, jumlah, kategori, tanggal) VALUES (?, ?, ?, ?)\<close>
  \<^item> \<open>SelectTransaksi\<close>:
    \<^verbatim>\<open>SELECT id, tanggal, deskripsi, kategori, jumlah FROM transaksi ORDER BY tanggal DESC, id DESC\<close>
  \<^item> \<open>DeleteTransaksi i\<close>: \<^verbatim>\<open>DELETE FROM transaksi WHERE id = ?\<close>
  \<^item> \<open>SumJumlah\<close>: \<^verbatim>\<open>SELECT SUM(jumlah) FROM transaksi\<close>
  \<^item> \<open>SumJumlahTanggal t\<close>: \<^verbatim>\<open>SELECT SUM(jumlah) FROM transaksi WHERE tanggal = ?\<close>
  \<^item> \<open>SumKategori\<close>: \<^verbatim>\<open>SELECT kategori, SUM(jumlah) FROM transaksi GROUP BY kategori\<close>
  \<^item> \<open>SumKategoriTanggal t\<close>:
    \<^verbatim>\<open>SELECT kategori, SUM(jumlah) FROM transaksi WHERE tanggal = ? GROUP BY kategori\<close>
\<close>

datatype statement =
    CreateTable
  | InsertTransaksi string real string string
  | SelectTransaksi
  | DeleteTransaksi int
  | SumJumlah
  | SumJumlahTanggal string
  | SumKategori
  | SumKategoriTanggal string

record cursor =
  lastrowid :: pyval
  pending :: "pyval list"

definition max_rowid :: int where
  "max_rowid = 9223372036854775807"

text \<open>\<^verbatim>\<open>ORDER BY tanggal DESC, id DESC\<close>: texts compare byte by byte.\<close>

definition precedes :: "row \<Rightarrow> row \<Rightarrow> bool" where
  "precedes r s =
     (col_tanggal s < col_tanggal r \<or> (col_tanggal r = col_tanggal s \<and> col_id s < col_id r))"

fun insert_row :: "row \<Rightarrow> row list \<Rightarrow> row list" where
  "insert_row r [] = [r]"
| "insert_row r (s # ss) = (if precedes s r then s # insert_row r ss else r # s # ss)"

definition order_by_tanggal_id_desc :: "row list \<Rightarrow> row list" where
  "order_by_tanggal_id_desc rs = foldr insert_row rs []"

definition select_tuple :: "row \<Rightarrow> pyval" where
  "select_tuple r =
     PyTuple [PyInt (col_id r), PyStr (col_tanggal r), PyStr (col_deskripsi r),
              PyStr (col_kategori r), PyFloat (col_jumlah r)]"

text \<open>
  \<^verbatim>\<open>SUM(jumlah)\<close>: over no row it is \<^verbatim>\<open>NULL\<close>, which Python reads as \<^verbatim>\<open>None\<close>;
  otherwise it is the floating-point sum of the engine, taken in the order of the rows.
\<close>

definition sum_jumlah :: "row list \<Rightarrow> pyval" where
  "sum_jumlah rs = (if rs = [] then PyNone else PyFloat (sqlite_sum (map col_jumlah rs)))"

text \<open>
  \<^verbatim>\<open>GROUP BY kategori\<close>: one output row for each category that occurs, holding the sum of
  its rows. The engine sorts the rows by the grouping column to form the groups, so the groups
  come out in ascending order of the category.
\<close>

definition group_by_kategori :: "row list \<Rightarrow> pyval list" where
  "group_by_kategori rs =
     map (\<lambda>k. PyTuple [PyStr k, sum_jumlah (filter (\<lambda>r. col_kategori r = k) rs)])
         (sort (remdups (map col_kategori rs)))"

definition where_tanggal :: "string \<Rightarrow> row list \<Rightarrow> row list" where
  "where_tanggal t rs = filter (\<lambda>r. col_tanggal r = t) rs"

text \<open>
  \<^verbatim>\<open>AUTOINCREMENT\<close>: the new row identifier is one more than the largest the table ever
  had; when that was the largest 64-bit integer the insert fails.
\<close>

definition largest_rowid :: "row list \<Rightarrow> int \<Rightarrow> int" where
  "largest_rowid rs s = foldr max (map col_id rs) s"

text \<open>
  Every call opens a new connection, so after a statement that inserts nothing
  \<^verbatim>\<open>cursor.lastrowid\<close> is 0, the identifier of the last insertion of a connection that has
  made none.
\<close>

definition no_rows :: cursor where
  "no_rows = \<lparr>lastrowid = PyInt 0, pending = []\<rparr>"

definition query :: "pyval list \<Rightarrow> cursor" where
  "query ts = \<lparr>lastrowid = PyInt 0, pending = ts\<rparr>"

text \<open>
  \<^verbatim>\<open>cursor.execute(sql, params)\<close> on an open connection. A statement on a table that does
  not exist fails when it is prepared, before its parameters are bound; binding a Python
  integer outside the 64-bit range raises \<^verbatim>\<open>OverflowError\<close>, which is not a
  \<^verbatim>\<open>sqlite3.Error\<close>.
\<close>

fun cursor_execute :: "database \<Rightarrow> statement \<Rightarrow> py_exception + (database \<times> cursor)" where
  "cursor_execute db CreateTable =
     (case tabel db of
        None \<Rightarrow> Inr (db\<lparr>tabel := Some []\<rparr>, no_rows)
      | Some rs \<Rightarrow> Inr (db, no_rows))"
| "cursor_execute db (InsertTransaksi d j k t) =
     (case tabel db of
        None \<Rightarrow> Inl Sqlite3Error
      | Some rs \<Rightarrow>
          (let m = largest_rowid rs (sequence db) in
           if max_rowid \<le> m then Inl Sqlite3Error
           else Inr (db\<lparr>tabel := Some (rs @ [\<lparr>col_id = m + 1, col_deskripsi = d, col_jumlah = j,
                                                col_kategori = k, col_tanggal = t\<rparr>]),
                        sequence := m + 1\<rparr>,
                     \<lparr>lastrowid = PyInt (m + 1), pending = []\<rparr>)))"
| "cursor_execute db SelectTransaksi =
     (case tabel db of
        None \<Rightarrow> Inl Sqlite3Error
      | Some rs \<Rightarrow> Inr (db, query (map select_tuple (order_by_tanggal_id_desc rs))))"
| "cursor_execute db (DeleteTransaksi i) =
     (case tabel db of
        None \<Rightarrow> Inl Sqlite3Error
      | Some rs \<Rightarrow>
          if i < - max_rowid - 1 \<or> max_rowid < i then Inl OverflowError
          else Inr (db\<lparr>tabel := Some (filter (\<lambda>r. col_id r \<noteq> i) rs)\<rparr>, no_rows))"
| "cursor_execute db SumJumlah =
     (case tabel db of
        None \<Rightarrow> Inl Sqlite3Error
      | Some rs \<Rightarrow> Inr (db, query [PyTuple [sum_jumlah rs]]))"
| "cursor_execute db (SumJumlahTanggal t) =
     (case tabel db of
        None \<Rightarrow> Inl Sqlite3Error
      | Some rs \<Rightarrow> Inr (db, query [PyTuple [sum_jumlah (where_tanggal t rs)]]))"
| "cursor_execute db SumKategori =
     (case tabel db of
        None \<Rightarrow> Inl Sqlite3Error
      | Some rs \<Rightarrow> Inr (db, query (group_by_kategori rs)))"
| "cursor_execute db (SumKategoriTanggal t) =
     (case tabel db of
        None \<Rightarrow> Inl Sqlite3Error
      | Some rs \<Rightarrow> Inr (db, query (group_by_kategori (where_tanggal t rs))))"

definition fetchone :: "cursor \<Rightarrow> pyval" where
  "fetchone c = (case pending c of [] \<Rightarrow> PyNone | t # ts \<Rightarrow> t)"

definition fetchall :: "cursor \<Rightarrow> pyval" where
  "fetchall c = PyList (pending c)"

section \<open>\<^verbatim>\<open>DatabaseManager\<close>\<close>

text \<open>
  \<^verbatim>\<open>__enter__\<close> opens the connection; \<^verbatim>\<open>sqlite3.connect\<close> raises when the file cannot be
  opened. \<^verbatim>\<open>__exit__\<close> commits and closes on every way out of the \<^verbatim>\<open>with\<close> block, so
  the one statement of a call is stored when it succeeded and leaves the file as it was when
  it failed.
\<close>

definition enter :: "database \<Rightarrow> py_exception + database" where
  "enter db = (if online db then Inr db else Inl Sqlite3Error)"

text \<open>
  \<^verbatim>\<open>execute_query(sql, params, is_insert, fetch)\<close>. \<^verbatim>\<open>fetch\<close> is \<^verbatim>\<open>None\<close> or a string.
  The handler catches \<^verbatim>\<open>sqlite3.Error\<close> only and answers
  \<^verbatim>\<open>None if is_insert or fetch else False\<close>; any other exception leaves the call.
\<close>

definition fetch_truthy :: "string option \<Rightarrow> bool" where
  "fetch_truthy fetch = (case fetch of None \<Rightarrow> False | Some s \<Rightarrow> s \<noteq> [])"

definition on_exception ::
  "py_exception \<Rightarrow> bool \<Rightarrow> string option \<Rightarrow> py_exception + pyval" where
  "on_exception e is_insert fetch =
     (if e = Sqlite3Error
      then Inr (if is_insert \<or> fetch_truthy fetch then PyNone else PyBool False)
      else Inl e)"

definition execute_query ::
  "database \<Rightarrow> statement \<Rightarrow> bool \<Rightarrow> string option \<Rightarrow> (py_exception + pyval) \<times> database" where
  "execute_query db sql is_insert fetch =
     (case enter db of
        Inl e \<Rightarrow> (on_exception e is_insert fetch, db)
      | Inr conn \<Rightarrow>
          (case cursor_execute conn sql of
             Inl e \<Rightarrow> (on_exception e is_insert fetch, db)
           | Inr (db', cur) \<Rightarrow>
               if is_insert then (Inr (lastrowid cur), db')
               else if fetch = Some ''one'' then (Inr (fetchone cur), db')
               else if fetch = Some ''all'' then (Inr (fetchall cur), db')
               else (Inr (PyBool True), db')))"

section \<open>\<^verbatim>\<open>AnggaranHarian\<close>\<close>

text \<open>
  Modelled from the spec: the class \<^verbatim>\<open>Transaksi\<close> of \<^verbatim>\<open>model.py\<close>, which is not among the
  sources. The spec describes the value the caller builds before \<^verbatim>\<open>add\<close> as
  \<^verbatim>\<open>{description, amount, category, date}\<close>, and \<^verbatim>\<open>tambah_transaksi\<close> reads exactly the
  attributes \<^verbatim>\<open>deskripsi\<close>, \<^verbatim>\<open>jumlah\<close>, \<^verbatim>\<open>kategori\<close> and \<^verbatim>\<open>tanggal\<close>.
\<close>

record Transaksi =
  deskripsi :: string
  jumlah :: real
  kategori :: string
  tanggal :: date

text \<open>\<^verbatim>\<open>__init__\<close> runs \<^verbatim>\<open>_buat_tabel_jika_tidak_ada\<close> and drops its result.\<close>

definition buat_tabel_jika_tidak_ada :: "database \<Rightarrow> database" where
  "buat_tabel_jika_tidak_ada db = snd (execute_query db CreateTable False None)"

definition AnggaranHarian :: "database \<Rightarrow> database" where
  "AnggaranHarian db = buat_tabel_jika_tidak_ada db"

text \<open>
  \<^verbatim>\<open>tambah_transaksi\<close>: \<open>insert_transaksi\<close> is the call that yields \<^verbatim>\<open>last_id\<close>, and the
  method returns \<^verbatim>\<open>last_id is not None\<close>.
\<close>

definition insert_transaksi :: "database \<Rightarrow> Transaksi \<Rightarrow> (py_exception + pyval) \<times> database" where
  "insert_transaksi db tx =
     execute_query db
       (InsertTransaksi (deskripsi tx) (jumlah tx) (kategori tx) (strftime_ymd (tanggal tx)))
       True None"

definition tambah_transaksi :: "database \<Rightarrow> Transaksi \<Rightarrow> (py_exception + bool) \<times> database" where
  "tambah_transaksi db tx =
     (case insert_transaksi db tx of
        (Inl e, db') \<Rightarrow> (Inl e, db')
      | (Inr last_id, db') \<Rightarrow> (Inr (last_id \<noteq> PyNone), db'))"

text \<open>
  \<^verbatim>\<open>get_dataframe_transaksi\<close>. The frame has one line for each fetched tuple, indexed by
  \<^verbatim>\<open>ID\<close>, with \<^verbatim>\<open>Tanggal\<close> reformatted through \<^verbatim>\<open>pd.to_datetime\<close> and \<^verbatim>\<open>Jumlah\<close> printed
  as text. Every exception inside the \<^verbatim>\<open>try\<close> block is caught and gives \<^verbatim>\<open>None\<close>; a
  tuple that is not of the five columns of the \<^verbatim>\<open>SELECT\<close> is taken to raise there.
\<close>

record entry =
  ID :: int
  Tanggal :: string
  Deskripsi :: string
  Kategori :: string
  Jumlah :: string

definition frame_row :: "pyval \<Rightarrow> entry option" where
  "frame_row t =
     (case t of
        PyTuple [PyInt i, PyStr tgl, PyStr d, PyStr k, PyFloat x] \<Rightarrow>
          (case to_datetime tgl of
             None \<Rightarrow> None
           | Some dt \<Rightarrow>
               Some \<lparr>ID = i, Tanggal = strftime_dmy dt, Deskripsi = d, Kategori = k,
                     Jumlah = format_jumlah x\<rparr>)
      | _ \<Rightarrow> None)"

definition data_frame :: "pyval \<Rightarrow> entry list option" where
  "data_frame records = (case records of PyList ts \<Rightarrow> those (map frame_row ts) | _ \<Rightarrow> None)"

definition get_dataframe_transaksi :: "database \<Rightarrow> entry list option \<times> database" where
  "get_dataframe_transaksi db =
     (case execute_query db SelectTransaksi False (Some ''all'') of
        (Inl e, db') \<Rightarrow> (None, db')
      | (Inr records, db') \<Rightarrow>
          if records = PyNone then (None, db') else (data_frame records, db'))"

definition hapus_transaksi :: "database \<Rightarrow> int \<Rightarrow> (py_exception + pyval) \<times> database" where
  "hapus_transaksi db id_transaksi = execute_query db (DeleteTransaksi id_transaksi) False None"

text \<open>
  \<^verbatim>\<open>hitung_total_pengeluaran\<close>: a date object is always true, so \<^verbatim>\<open>if tanggal\<close> asks
  whether a date was given. The result is
  \<^verbatim>\<open>result[0] if result and result[0] is not None else 0.0\<close>.
\<close>

definition hitung_total_pengeluaran ::
  "database \<Rightarrow> date option \<Rightarrow> (py_exception + pyval) \<times> database" where
  "hitung_total_pengeluaran db tgl =
     (let sql = (case tgl of Some d \<Rightarrow> SumJumlahTanggal (strftime_ymd d) | None \<Rightarrow> SumJumlah)
      in case execute_query db sql False (Some ''one'') of
           (Inl e, db') \<Rightarrow> (Inl e, db')
         | (Inr result, db') \<Rightarrow>
             if truthy result then
               (case getitem result 0 of
                  Inl e \<Rightarrow> (Inl e, db')
                | Inr v \<Rightarrow> (Inr (if v \<noteq> PyNone then v else PyFloat 0), db'))
             else (Inr (PyFloat 0), db'))"

text \<open>
  \<^verbatim>\<open>get_pengeluaran_per_kategori\<close>:
  \<^verbatim>\<open>{row[0]: row[1] for row in records} if records else {}\<close>.
\<close>

fun dict_of_rows :: "pydict \<Rightarrow> pyval list \<Rightarrow> py_exception + pydict" where
  "dict_of_rows d [] = Inr d"
| "dict_of_rows d (row # rows) =
     (case getitem row 0 of
        Inl e \<Rightarrow> Inl e
      | Inr k \<Rightarrow>
          (case getitem row 1 of
             Inl e \<Rightarrow> Inl e
           | Inr v \<Rightarrow>
               (case setitem d k v of
                  Inl e \<Rightarrow> Inl e
                | Inr d' \<Rightarrow> dict_of_rows d' rows)))"

definition get_pengeluaran_per_kategori ::
  "database \<Rightarrow> date option \<Rightarrow> (py_exception + pydict) \<times> database" where
  "get_pengeluaran_per_kategori db tgl =
     (let sql = (case tgl of Some d \<Rightarrow> SumKategoriTanggal (strftime_ymd d) | None \<Rightarrow> SumKategori)
      in case execute_query db sql False (Some ''all'') of
           (Inl e, db') \<Rightarrow> (Inl e, db')
         | (Inr records, db') \<Rightarrow>
             if truthy records then
               (case iterate records of
                  Inl e \<Rightarrow> (Inl e, db')
                | Inr rows \<Rightarrow> (dict_of_rows [] rows, db'))
             else (Inr [], db'))"

section \<open>Runs of the ledger\<close>

text \<open>
  A ledger is built on a file that may or may not hold the table already, and then serves
  additions and deletions; between two calls the file may become unreadable or readable
  again (\<open>Gangguan\<close>), and the program may be started again on the same file
  (\<open>Buka\<close>). \<open>assigned\<close> collects the row identifiers that the insertions of a
  run returned, in order.
\<close>

datatype operation = Tambah Transaksi | Hapus int | Gangguan bool | Buka

fun step :: "database \<Rightarrow> operation \<Rightarrow> database" where
  "step db (Tambah tx) = snd (tambah_transaksi db tx)"
| "step db (Hapus i) = snd (hapus_transaksi db i)"
| "step db (Gangguan b) = db\<lparr>online := b\<rparr>"
| "step db Buka = AnggaranHarian db"

fun run :: "database \<Rightarrow> operation list \<Rightarrow> database" where
  "run db [] = db"
| "run db (a # as) = run (step db a) as"

fun returned_id :: "database \<Rightarrow> operation \<Rightarrow> int list" where
  "returned_id db (Tambah tx) =
     (case fst (insert_transaksi db tx) of Inr (PyInt i) \<Rightarrow> [i] | _ \<Rightarrow> [])"
| "returned_id db _ = []"

fun assigned :: "database \<Rightarrow> operation list \<Rightarrow> int list" where
  "assigned db [] = []"
| "assigned db (a # as) = returned_id db a @ assigned (step db a) as"

definition new_file :: "bool \<Rightarrow> database" where
  "new_file b = \<lparr>online = b, tabel = None, sequence = 0\<rparr>"

definition rows :: "database \<Rightarrow> row list" where
  "rows db = (case tabel db of None \<Rightarrow> [] | Some rs \<Rightarrow> rs)"

definition row_date :: "row \<Rightarrow> date option" where
  "row_date r = parse_ymd (col_tanggal r)"

section \<open>The words of the specification\<close>

text \<open>
  The specification speaks of the rows that match a date filter: all rows when no date is
  given, the rows of that date otherwise. The date of a row is what its stored text reads as.
\<close>

definition matching :: "date option \<Rightarrow> row list \<Rightarrow> row list" where
  "matching tgl rs = (case tgl of None \<Rightarrow> rs | Some d \<Rightarrow> filter (\<lambda>r. row_date r = Some d) rs)"

definition total_jumlah :: "row list \<Rightarrow> real" where
  "total_jumlah rs = sum_list (map col_jumlah rs)"

text \<open>
  The floating-point sum of the amounts of rows, in their order: what \<^verbatim>\<open>SUM(jumlah)\<close>
  computes over them, and 0 over no row.
\<close>

definition float_total :: "row list \<Rightarrow> real" where
  "float_total rs = sqlite_sum (map col_jumlah rs)"

text \<open>
  The arithmetic sum and the floating-point sum agree where no addition rounds. That is so
  when the amounts are whole numbers whose magnitudes add up to no more than \<open>2 ^ 53\<close>:
  every partial sum is then a double.
\<close>

definition whole :: "real \<Rightarrow> bool" where
  "whole x = (of_int \<lfloor>x\<rfloor> = x)"

definition exact_amounts :: "row list \<Rightarrow> bool" where
  "exact_amounts rs =
     (list_all (\<lambda>r. whole (col_jumlah r)) rs \<and> sum_list (map (\<lambda>r. \<bar>col_jumlah r\<bar>) rs) \<le> 2 ^ 53)"

text \<open>
  The doubles of the model have no infinity, so the floating-point sum is the sum of the
  engine only where no addition overflows. That is so when the magnitudes of the amounts add
  up to less than \<open>2 ^ 1023\<close>: the roundings of a table that fits a database file, of
  fewer than \<open>2 ^ 48\<close> rows, cannot double a partial sum.
\<close>

definition finite_amounts :: "row list \<Rightarrow> bool" where
  "finite_amounts rs = (sum_list (map (\<lambda>r. \<bar>col_jumlah r\<bar>) rs) < 2 ^ 1023)"

definition of_kategori :: "string \<Rightarrow> row list \<Rightarrow> row list" where
  "of_kategori k rs = filter (\<lambda>r. col_kategori r = k) rs"

definition kategori_terpakai :: "row list \<Rightarrow> string list" where
  "kategori_terpakai rs = sort (remdups (map col_kategori rs))"

text \<open>
  The mapping the specification describes for the sums by category: one key for each
  category that occurs among the rows, with the sum of the amounts of its rows.
\<close>

definition per_kategori :: "row list \<Rightarrow> pydict" where
  "per_kategori rs =
     map (\<lambda>k. (PyStr k, PyFloat (total_jumlah (of_kategori k rs)))) (kategori_terpakai rs)"

text \<open>
  The same mapping with the sums as the engine computes them.
\<close>

definition float_per_kategori :: "row list \<Rightarrow> pydict" where
  "float_per_kategori rs =
     map (\<lambda>k. (PyStr k, PyFloat (float_total (of_kategori k rs)))) (kategori_terpakai rs)"






definition given :: "date option \<Rightarrow> bool" where
  "given tgl = (case tgl of None \<Rightarrow> True | Some d \<Rightarrow> valid_date d)"

section \<open>The scenario of the specification\<close>

text \<open>
  Two expenses of the same day on a new file: a lunch of 25000 and a bus fare of 5000.
\<close>

definition hari :: date where
  "hari = \<lparr>year = 2024, month = 1, day = 10\<rparr>"

definition besok :: date where
  "besok = \<lparr>year = 2024, month = 1, day = 11\<rparr>"

definition lunch :: Transaksi where
  "lunch = \<lparr>deskripsi = ''Lunch'', jumlah = 25000, kategori = ''Food'', tanggal = hari\<rparr>"

definition bus :: Transaksi where
  "bus = \<lparr>deskripsi = ''Bus'', jumlah = 5000, kategori = ''Transport'', tanggal = hari\<rparr>"

definition lunch_row :: row where
  "lunch_row = \<lparr>col_id = 1, col_deskripsi = ''Lunch'', col_jumlah = 25000,
                 col_kategori = ''Food'', col_tanggal = ''2024-01-10''\<rparr>"

definition bus_row :: row where
  "bus_row = \<lparr>col_id = 2, col_deskripsi = ''Bus'', col_jumlah = 5000,
               col_kategori = ''Transport'', col_tanggal = ''2024-01-10''\<rparr>"

definition ledger :: database where
  "ledger = \<lparr>online = True, tabel = Some [lunch_row, bus_row], sequence = 2\<rparr>"


definition after_lunch :: database where
  "after_lunch = \<lparr>online = True, tabel = Some [lunch_row], sequence = 1\<rparr>"


text \<open>
  An expense of the day before, entered after the two others.
\<close>

definition kemarin :: date where
  "kemarin = \<lparr>year = 2024, month = 1, day = 9\<rparr>"

definition sarapan :: Transaksi where
  "sarapan = \<lparr>deskripsi = ''Sarapan'', jumlah = 15000, kategori = ''Food'', tanggal = kemarin\<rparr>"

definition sarapan_row :: row where
  "sarapan_row = \<lparr>col_id = 3, col_deskripsi = ''Sarapan'', col_jumlah = 15000,
                   col_kategori = ''Food'', col_tanggal = ''2024-01-09''\<rparr>"

definition ledger3 :: database where
  "ledger3 = \<lparr>online = True, tabel = Some [lunch_row, bus_row, sarapan_row], sequence = 3\<rparr>"

text \<open>
  Amounts that the sum of the engine rounds: a house of ten quadrillion, which is a double
  above \<open>2 ^ 53\<close>, where the doubles are 2 apart, and two expenses of 1.
\<close>

definition rumah :: Transaksi where
  "rumah = \<lparr>deskripsi = ''Rumah'', jumlah = 10000000000000000, kategori = ''Papan'',
             tanggal = hari\<rparr>"

definition paku :: Transaksi where
  "paku = \<lparr>deskripsi = ''Paku'', jumlah = 1, kategori = ''Papan'', tanggal = hari\<rparr>"

definition parkir :: Transaksi where
  "parkir = \<lparr>deskripsi = ''Parkir'', jumlah = 1, kategori = ''Transport'', tanggal = hari\<rparr>"

definition rumah_row :: row where
  "rumah_row = \<lparr>col_id = 1, col_deskripsi = ''Rumah'', col_jumlah = 10000000000000000,
                 col_kategori = ''Papan'', col_tanggal = ''2024-01-10''\<rparr>"

definition paku_row :: row where
  "paku_row = \<lparr>col_id = 2, col_deskripsi = ''Paku'', col_jumlah = 1,
                col_kategori = ''Papan'', col_tanggal = ''2024-01-10''\<rparr>"

definition parkir_row :: row where
  "parkir_row = \<lparr>col_id = 3, col_deskripsi = ''Parkir'', col_jumlah = 1,
                  col_kategori = ''Transport'', col_tanggal = ''2024-01-10''\<rparr>"

definition papan :: database where
  "papan = \<lparr>online = True, tabel = Some [rumah_row, paku_row], sequence = 2\<rparr>"

definition papan3 :: database where
  "papan3 = \<lparr>online = True, tabel = Some [rumah_row, paku_row, parkir_row], sequence = 3\<rparr>"

text \<open>
  An expense of the year 5, entered after the lunch: \<^verbatim>\<open>strftime\<close> writes its date as
  \<^verbatim>\<open>5-01-01\<close>.
\<close>

definition kuno :: date where
  "kuno = \<lparr>year = 5, month = 1, day = 1\<rparr>"


definition prasasti_row :: row where
  "prasasti_row = \<lparr>col_id = 2, col_deskripsi = ''Prasasti'', col_jumlah = 100,
                    col_kategori = ''Sejarah'', col_tanggal = ''5-01-01''\<rparr>"



section \<open>Dates: writing and reading the stored text\<close>

lemma digit_chars:
  "digit 0 = CHR ''0''" "digit 1 = CHR ''1''" "digit 2 = CHR ''2''" "digit 3 = CHR ''3''"
  "digit 4 = CHR ''4''" "digit 5 = CHR ''5''" "digit 6 = CHR ''6''" "digit 7 = CHR ''7''"
  "digit 8 = CHR ''8''" "digit 9 = CHR ''9''" "digit (Suc 0) = CHR ''1''"
  by (simp_all add: digit_def char_of_def bit_Suc_0_iff)

lemma digit_val_digit: "n < 10 \<Longrightarrow> digit_val (digit n) = Some n"
  by (simp add: digit_val_def digit_def)

lemma digit_val_SomeD: "digit_val c = Some n \<Longrightarrow> n < 10 \<and> digit n = c"
  by (auto simp: digit_val_def digit_def Let_def split: if_splits)

lemma number_of_append:
  "number_of (xs @ ys) =
     (case number_of xs of
        None \<Rightarrow> None
      | Some a \<Rightarrow> (case number_of ys of None \<Rightarrow> None | Some b \<Rightarrow> Some (a * 10 ^ length ys + b)))"
  by (induction xs) (auto split: option.splits simp: power_add algebra_simps)

lemma number_of_pad2: "n < 100 \<Longrightarrow> number_of (pad2 n) = Some n"
  by (simp add: pad2_def digit_val_digit)

lemma length_pad2: "length (pad2 n) = 2"
  by (simp add: pad2_def)



lemma number_of_decimal: "number_of (decimal n) = Some n"
proof (induction n rule: decimal.induct)
  case (1 n)
  show ?case
  proof (cases "n < 10")
    case True
    then show ?thesis
      by (simp add: decimal.simps [of n] digit_val_digit)
  next
    case False
    then have "number_of (decimal (n div 10)) = Some (n div 10)"
      by (rule "1.IH")
    with False show ?thesis
      by (simp add: decimal.simps [of n] number_of_append digit_val_digit)
  qed
qed


lemma days_in_month_le: "days_in_month y m \<le> 31"
  by (simp add: days_in_month_def)

lemma valid_date_bounds:
  assumes "valid_date d"
  shows "year d < 10000" and "month d < 100" and "day d < 100"
proof -
  from assms show "year d < 10000" and "month d < 100"
    by (simp_all add: valid_date_def)
  from assms have "day d \<le> days_in_month (year d) (month d)"
    by (simp add: valid_date_def)
  also have "\<dots> \<le> 31" by (rule days_in_month_le)
  finally show "day d < 100" by simp
qed

lemma parse_ymd_strftime:
  assumes "valid_date d"
  shows "parse_ymd (strftime_ymd d) = Some d"
proof -
  let ?s = "strftime_ymd d"
  let ?l = "length (decimal (year d))"
  have len: "length ?s = ?l + 6"
    by (simp add: strftime_ymd_def length_pad2)
  have y: "take (length ?s - 6) ?s = decimal (year d)"
    unfolding len by (simp add: strftime_ymd_def)
  have m: "take 2 (drop (length ?s - 5) ?s) = pad2 (month d)"
    unfolding len by (simp add: strftime_ymd_def length_pad2)
  have dd: "drop (length ?s - 2) ?s = pad2 (day d)"
    unfolding len by (simp add: strftime_ymd_def length_pad2)
  from valid_date_bounds [OF assms]
  have n: "number_of (take (length ?s - 6) ?s) = Some (year d)"
    "number_of (take 2 (drop (length ?s - 5) ?s)) = Some (month d)"
    "number_of (drop (length ?s - 2) ?s) = Some (day d)"
    unfolding y m dd by (simp_all add: number_of_decimal number_of_pad2)
  have r: "\<lparr>year = year d, month = month d, day = day d\<rparr> = d"
    by (cases d) simp
  have "6 < length ?s"
    unfolding len by (simp add: decimal.simps [of "year d"])
  then have "parse_ymd ?s =
      (if valid_date \<lparr>year = year d, month = month d, day = day d\<rparr> \<and>
          strftime_ymd \<lparr>year = year d, month = month d, day = day d\<rparr> = ?s
       then Some \<lparr>year = year d, month = month d, day = day d\<rparr> else None)"
    unfolding parse_ymd_def Let_def n by simp
  then show ?thesis
    unfolding r using assms by simp
qed

lemma parse_ymd_SomeD:
  assumes "parse_ymd s = Some d"
  shows "valid_date d \<and> s = strftime_ymd d"
  using assms unfolding parse_ymd_def
  by (auto simp: Let_def split: if_splits option.splits)

lemma parse_ymd_iff: "parse_ymd s = Some d \<longleftrightarrow> valid_date d \<and> s = strftime_ymd d"
  using parse_ymd_SomeD parse_ymd_strftime by blast





section \<open>The gateway: one statement a call, failures as sentinels\<close>

lemma execute_query_offline:
  "\<not> online db \<Longrightarrow> execute_query db sql is_insert fetch = (on_exception Sqlite3Error is_insert fetch, db)"
  by (simp add: execute_query_def enter_def)

lemma execute_query_raises:
  "online db \<Longrightarrow> cursor_execute db sql = Inl e \<Longrightarrow>
   execute_query db sql is_insert fetch = (on_exception e is_insert fetch, db)"
  by (simp add: execute_query_def enter_def)

lemma execute_query_no_table:
  "tabel db = None \<Longrightarrow> sql \<noteq> CreateTable \<Longrightarrow>
   execute_query db sql is_insert fetch = (on_exception Sqlite3Error is_insert fetch, db)"
  by (cases sql) (simp_all add: execute_query_def enter_def)

lemma execute_query_insert:
  "online db \<Longrightarrow> cursor_execute db sql = Inr (db', cur) \<Longrightarrow>
   execute_query db sql True fetch = (Inr (lastrowid cur), db')"
  by (simp add: execute_query_def enter_def)

lemma execute_query_one:
  "online db \<Longrightarrow> cursor_execute db sql = Inr (db', cur) \<Longrightarrow>
   execute_query db sql False (Some ''one'') = (Inr (fetchone cur), db')"
  by (simp add: execute_query_def enter_def)

lemma execute_query_all:
  "online db \<Longrightarrow> cursor_execute db sql = Inr (db', cur) \<Longrightarrow>
   execute_query db sql False (Some ''all'') = (Inr (fetchall cur), db')"
  by (simp add: execute_query_def enter_def)

lemma execute_query_plain:
  "online db \<Longrightarrow> cursor_execute db sql = Inr (db', cur) \<Longrightarrow>
   execute_query db sql False None = (Inr (PyBool True), db')"
  by (simp add: execute_query_def enter_def)

lemma on_exception_sqlite:
  "on_exception Sqlite3Error True fetch = Inr PyNone"
  "on_exception Sqlite3Error False (Some ''one'') = Inr PyNone"
  "on_exception Sqlite3Error False (Some ''all'') = Inr PyNone"
  "on_exception Sqlite3Error False None = Inr (PyBool False)"
  by (simp_all add: on_exception_def fetch_truthy_def)

lemma on_exception_not_sqlite: "on_exception e is_insert fetch \<noteq> Inl Sqlite3Error"
  by (simp add: on_exception_def)

lemma execute_query_absorbs: "fst (execute_query db sql is_insert fetch) \<noteq> Inl Sqlite3Error"
  by (auto simp: execute_query_def enter_def on_exception_not_sqlite split: sum.splits prod.splits)

lemma execute_query_failed:
  assumes "enter db = Inl Sqlite3Error \<or> cursor_execute db sql = Inl Sqlite3Error"
  shows "execute_query db sql is_insert fetch = (on_exception Sqlite3Error is_insert fetch, db)"
  using assms by (auto simp: execute_query_def enter_def split: if_splits)


section \<open>What the gateway returns\<close>

lemma le_largest_rowid: "s \<le> largest_rowid rs s"
  by (induction rs) (simp_all add: largest_rowid_def)

lemma col_id_le_largest_rowid: "r \<in> set rs \<Longrightarrow> col_id r \<le> largest_rowid rs s"
  by (induction rs) (auto simp: largest_rowid_def)

lemma largest_rowid_fresh: "largest_rowid rs s + 1 \<notin> col_id ` set rs"
  using col_id_le_largest_rowid [of _ rs s] by fastforce

lemma cursor_execute_insert:
  assumes "tabel db = Some rs" and "largest_rowid rs (sequence db) < max_rowid"
  shows "cursor_execute db (InsertTransaksi d j k t) =
     Inr (db\<lparr>tabel := Some (rs @ [\<lparr>col_id = largest_rowid rs (sequence db) + 1,
                                     col_deskripsi = d, col_jumlah = j, col_kategori = k,
                                     col_tanggal = t\<rparr>]),
             sequence := largest_rowid rs (sequence db) + 1\<rparr>,
          \<lparr>lastrowid = PyInt (largest_rowid rs (sequence db) + 1), pending = []\<rparr>)"
  using assms by (simp add: Let_def)

text \<open>
  C9. When the connection cannot be opened or the statement raises \<^verbatim>\<open>sqlite3.Error\<close>,
  \<^verbatim>\<open>execute_query\<close> returns \<^verbatim>\<open>None\<close> in insert mode and in the two fetch modes and
  \<^verbatim>\<open>False\<close> in plain mode, and leaves the file as it was; no call ever ends in a
  \<^verbatim>\<open>sqlite3.Error\<close>; and a successful insert returns the identifier of the row it added,
  which no row of the table had before.
\<close>

theorem execute_query_sentinel:
  "((enter db = Inl Sqlite3Error \<or> cursor_execute db sql = Inl Sqlite3Error) \<longrightarrow>
      execute_query db sql True fetch = (Inr PyNone, db) \<and>
      execute_query db sql False (Some ''one'') = (Inr PyNone, db) \<and>
      execute_query db sql False (Some ''all'') = (Inr PyNone, db) \<and>
      execute_query db sql False None = (Inr (PyBool False), db)) \<and>
   fst (execute_query db sql is_insert fetch) \<noteq> Inl Sqlite3Error \<and>
   (online db \<and> tabel db = Some rs \<and> largest_rowid rs (sequence db) < max_rowid \<longrightarrow>
      execute_query db (InsertTransaksi d j k t) True fetch =
        (Inr (PyInt (largest_rowid rs (sequence db) + 1)),
         db\<lparr>tabel := Some (rs @ [\<lparr>col_id = largest_rowid rs (sequence db) + 1,
                                    col_deskripsi = d, col_jumlah = j, col_kategori = k,
                                    col_tanggal = t\<rparr>]),
            sequence := largest_rowid rs (sequence db) + 1\<rparr>) \<and>
      largest_rowid rs (sequence db) + 1 \<notin> col_id ` set rs)"
proof (intro conjI impI)
  assume f: "enter db = Inl Sqlite3Error \<or> cursor_execute db sql = Inl Sqlite3Error"
  show "execute_query db sql True fetch = (Inr PyNone, db)"
    and "execute_query db sql False (Some ''one'') = (Inr PyNone, db)"
    and "execute_query db sql False (Some ''all'') = (Inr PyNone, db)"
    and "execute_query db sql False None = (Inr (PyBool False), db)"
    by (simp_all add: execute_query_failed [OF f] on_exception_sqlite)
next
  show "fst (execute_query db sql is_insert fetch) \<noteq> Inl Sqlite3Error"
    by (rule execute_query_absorbs)
next
  assume a: "online db \<and> tabel db = Some rs \<and> largest_rowid rs (sequence db) < max_rowid"
  then show "execute_query db (InsertTransaksi d j k t) True fetch =
        (Inr (PyInt (largest_rowid rs (sequence db) + 1)),
         db\<lparr>tabel := Some (rs @ [\<lparr>col_id = largest_rowid rs (sequence db) + 1,
                                    col_deskripsi = d, col_jumlah = j, col_kategori = k,
                                    col_tanggal = t\<rparr>]),
            sequence := largest_rowid rs (sequence db) + 1\<rparr>)"
    by (simp add: execute_query_insert [OF _ cursor_execute_insert])
next
  show "largest_rowid rs (sequence db) + 1 \<notin> col_id ` set rs"
    by (rule largest_rowid_fresh)
qed

theorem execute_query_sentinel_witness:
  "enter (new_file False) = Inl Sqlite3Error \<and>
   execute_query (new_file False) SumJumlah True None = (Inr PyNone, new_file False) \<and>
   execute_query (new_file False) SumJumlah False (Some ''one'') = (Inr PyNone, new_file False) \<and>
   execute_query (new_file False) SumJumlah False (Some ''all'') = (Inr PyNone, new_file False) \<and>
   execute_query (new_file False) SumJumlah False None = (Inr (PyBool False), new_file False) \<and>
   online (AnggaranHarian (new_file True)) \<and>
   tabel (AnggaranHarian (new_file True)) = Some [] \<and>
   largest_rowid [] (sequence (AnggaranHarian (new_file True))) < max_rowid \<and>
   fst (execute_query (AnggaranHarian (new_file True))
          (InsertTransaksi ''Lunch'' 25000 ''Food'' ''2024-01-10'') True None) = Inr (PyInt 1)"
proof -
  have e: "enter (new_file False) = Inl Sqlite3Error"
    by (simp add: enter_def new_file_def)
  have a: "AnggaranHarian (new_file True) = \<lparr>online = True, tabel = Some [], sequence = 0\<rparr>"
    by (simp add: AnggaranHarian_def buat_tabel_jika_tidak_ada_def execute_query_def enter_def
        new_file_def no_rows_def)
  show ?thesis
    using execute_query_sentinel [where db = "new_file False" and sql = SumJumlah
        and fetch = None and is_insert = True and rs = "[]" and d = "''Lunch''"
        and j = 25000 and k = "''Food''" and t = "''2024-01-10''"]
      execute_query_sentinel [where db = "AnggaranHarian (new_file True)" and sql = SumJumlah
        and fetch = None and is_insert = True and rs = "[]" and d = "''Lunch''"
        and j = 25000 and k = "''Food''" and t = "''2024-01-10''"]
    by (simp add: e a max_rowid_def largest_rowid_def)
qed


section \<open>The scenario, step by step\<close>

lemma strftime_hari: "strftime_ymd hari = ''2024-01-10''"
  by (simp add: hari_def strftime_ymd_def decimal.simps pad2_def digit_chars)

lemma strftime_besok: "strftime_ymd besok = ''2024-01-11''"
  by (simp add: besok_def strftime_ymd_def decimal.simps pad2_def digit_chars)

lemma valid_hari: "valid_date hari"
  by (simp add: hari_def valid_date_def days_in_month_def)

lemma valid_besok: "valid_date besok"
  by (simp add: besok_def valid_date_def days_in_month_def)

lemma row_date_lunch_row: "row_date lunch_row = Some hari"
  using parse_ymd_strftime [OF valid_hari]
  by (simp add: row_date_def lunch_row_def strftime_hari)

lemma row_date_bus_row: "row_date bus_row = Some hari"
  using parse_ymd_strftime [OF valid_hari]
  by (simp add: row_date_def bus_row_def strftime_hari)

lemma hari_neq_besok: "hari \<noteq> besok"
  by (simp add: hari_def besok_def)

lemma AnggaranHarian_new_file:
  "AnggaranHarian (new_file True) = \<lparr>online = True, tabel = Some [], sequence = 0\<rparr>"
  by (simp add: AnggaranHarian_def buat_tabel_jika_tidak_ada_def execute_query_def enter_def
      new_file_def no_rows_def)

lemma tambah_lunch:
  "tambah_transaksi \<lparr>online = True, tabel = Some [], sequence = 0\<rparr> lunch =
     (Inr True, \<lparr>online = True, tabel = Some [lunch_row], sequence = 1\<rparr>)"
  by (simp add: tambah_transaksi_def insert_transaksi_def execute_query_def enter_def
      largest_rowid_def max_rowid_def lunch_def lunch_row_def strftime_hari)

lemma tambah_bus:
  "tambah_transaksi \<lparr>online = True, tabel = Some [lunch_row], sequence = 1\<rparr> bus =
     (Inr True, ledger)"
  by (simp add: tambah_transaksi_def insert_transaksi_def execute_query_def enter_def
      largest_rowid_def max_rowid_def bus_def bus_row_def lunch_row_def ledger_def strftime_hari)

lemma ledger_run: "run (AnggaranHarian (new_file True)) [Tambah lunch, Tambah bus] = ledger"
  by (simp add: AnggaranHarian_new_file tambah_lunch tambah_bus)


section \<open>Rounding to doubles\<close>

lemma round_even_of_int: "round_even (of_int n) = n"
  by (simp add: round_even_def)

lemma bitlen_eqI:
  assumes "2 ^ k \<le> n" and "n < 2 ^ Suc k"
  shows "bitlen n = int k + 1"
proof -
  from assms(1) have pos: "0 < n"
    by (rule less_le_trans [rotated]) simp
  let ?b = "bitlen n"
  from bitlen_bounds [OF pos] have lo: "2 ^ nat (?b - 1) \<le> n" and hi: "n < 2 ^ nat ?b"
    by simp_all
  from lo assms(2) have "(2::int) ^ nat (?b - 1) < 2 ^ Suc k" by simp
  then have a: "nat (?b - 1) < Suc k"
    by (rule power_less_imp_less_exp [rotated]) simp
  from assms(1) hi have "(2::int) ^ k < 2 ^ nat ?b" by (rule le_less_trans)
  then have b: "k < nat ?b"
    by (rule power_less_imp_less_exp [rotated]) simp
  from a b show ?thesis by auto
qed

lemma exponent_eqI:
  assumes "2 ^ k \<le> \<bar>x\<bar>" and "\<bar>x\<bar> < 2 ^ Suc k"
  shows "exponent x = int k"
proof -
  have one: "1 \<le> \<bar>x\<bar>"
    using assms(1) by (rule order_trans [rotated]) simp
  have "(2::int) ^ k \<le> \<lfloor>\<bar>x\<bar>\<rfloor>"
    using assms(1) by (simp add: le_floor_iff)
  moreover have "\<lfloor>\<bar>x\<bar>\<rfloor> < (2::int) ^ Suc k"
    using assms(2) by (simp add: floor_less_iff)
  ultimately have "bitlen \<lfloor>\<bar>x\<bar>\<rfloor> = int k + 1"
    by (rule bitlen_eqI)
  with one show ?thesis by (simp add: exponent_def)
qed

lemma round_double_exact:
  assumes "x / ulp x = of_int k"
  shows "round_double x = x"
proof (cases "x = 0")
  case True
  then show ?thesis by (simp add: round_double_def)
next
  case False
  have u: "ulp x \<noteq> 0"
    by (simp add: ulp_def)
  from assms have "round_even (x / ulp x) = k"
    by (simp add: round_even_of_int)
  then have "round_double x = of_int k * ulp x"
    using False by (simp add: round_double_def)
  also have "\<dots> = x"
    using assms u by (simp add: field_simps)
  finally show ?thesis .
qed

lemma whole_of_int: "whole (of_int n)"
  by (simp add: whole_def)

lemma wholeE:
  assumes "whole x"
  obtains n where "x = of_int n"
  using assms unfolding whole_def by metis

lemma whole_add: "whole x \<Longrightarrow> whole y \<Longrightarrow> whole (x + y)"
  by (elim wholeE) (simp add: whole_def)

lemma whole_minus: "whole x \<Longrightarrow> whole (- x)"
  by (elim wholeE) (simp add: whole_def)

lemma whole_zero: "whole 0"
  by (simp add: whole_def)

lemma round_double_of_int:
  assumes "\<bar>n\<bar> \<le> 2 ^ 53"
  shows "round_double (of_int n) = of_int n"
proof (cases "n = 0")
  case True
  then show ?thesis by (simp add: round_double_def)
next
  case False
  then have pos: "0 < \<bar>n\<bar>" by simp
  define e where "e = nat (bitlen \<bar>n\<bar> - 1)"
  from bitlen_bounds [OF pos] have lo: "2 ^ e \<le> \<bar>n\<bar>" and hi: "\<bar>n\<bar> < 2 ^ nat (bitlen \<bar>n\<bar>)"
    by (simp_all add: e_def)
  from pos have "1 \<le> bitlen \<bar>n\<bar>"
    using bitlen_eq_zero_iff [of "\<bar>n\<bar>"] bitlen_nonneg [of "\<bar>n\<bar>"] by linarith
  then have "nat (bitlen \<bar>n\<bar>) = Suc e"
    by (simp add: e_def)
  with hi have hi': "\<bar>n\<bar> < 2 ^ Suc e" by simp
  have "\<bar>real_of_int n\<bar> = of_int \<bar>n\<bar>" by simp
  then have ex: "exponent (of_int n) = int e"
    using lo hi' by (intro exponent_eqI) (simp_all only: of_int_le_numeral_power_cancel_iff
        of_int_less_numeral_power_cancel_iff numeral_power_le_of_int_cancel_iff)
  from lo assms have "(2::int) ^ e \<le> 2 ^ 53" by simp
  then have e53: "e \<le> 53"
    by (rule power_le_imp_le_exp [rotated]) simp
  have u: "ulp (of_int n) = 2 powi (int e - 52)"
    by (simp add: ulp_def ex)
  show ?thesis
  proof (cases "e \<le> 52")
    case True
    then have "int e - 52 = - int (52 - e)" by simp
    then have "ulp (real_of_int n) = inverse (2 ^ (52 - e))"
      unfolding u by (simp only: power_int_minus power_int_of_nat)
    then have "real_of_int n / ulp (of_int n) = of_int (n * 2 ^ (52 - e))"
      by (simp add: divide_inverse)
    then show ?thesis by (rule round_double_exact)
  next
    case False
    with e53 have e: "e = 53" by simp
    with lo assms have "\<bar>n\<bar> = 2 ^ 53" by simp
    then have "even \<bar>n\<bar>" by simp
    then have "even n" by (simp only: dvd_abs_iff)
    then obtain m where m: "n = 2 * m" by (elim evenE)
    have "ulp (real_of_int n) = 2"
      unfolding u e by simp
    then have "real_of_int n / ulp (of_int n) = of_int m"
      by (simp add: m)
    then show ?thesis by (rule round_double_exact)
  qed
qed

lemma round_double_whole: "whole x \<Longrightarrow> \<bar>x\<bar> \<le> 2 ^ 53 \<Longrightarrow> round_double x = x"
proof (elim wholeE)
  fix n assume a: "\<bar>x\<bar> \<le> 2 ^ 53" and x: "x = of_int n"
  from a have "\<bar>n\<bar> \<le> 2 ^ 53"
    unfolding x by (simp only: of_int_abs [symmetric] of_int_le_numeral_power_cancel_iff)
  then show "round_double x = x"
    unfolding x by (rule round_double_of_int)
qed

section \<open>Sums that do not round\<close>

lemma kahanBabuskaNeumaierStep_exact:
  assumes "whole s" and "whole r" and "\<bar>s\<bar> + \<bar>r\<bar> \<le> 2 ^ 53"
  shows "kahanBabuskaNeumaierStep \<lparr>rSum = s, rErr = 0\<rparr> r = \<lparr>rSum = s + r, rErr = 0\<rparr>"
proof -
  have "\<bar>s + r\<bar> \<le> 2 ^ 53"
    using assms(3) by linarith
  with assms have t: "round_double (s + r) = s + r"
    by (intro round_double_whole whole_add)
  have "whole (- r)" "\<bar>- r\<bar> \<le> 2 ^ 53"
    using assms(2,3) by (simp_all add: whole_minus)
  then have a: "round_double (- r) = - r"
    by (rule round_double_whole)
  have "whole (- s)" "\<bar>- s\<bar> \<le> 2 ^ 53"
    using assms(1,3) by (simp_all add: whole_minus)
  then have b: "round_double (- s) = - s"
    by (rule round_double_whole)
  have z: "round_double 0 = 0"
    by (simp add: round_double_def)
  show ?thesis
    by (simp add: kahanBabuskaNeumaierStep_def Let_def t a b z)
qed

lemma foldl_kahanBabuskaNeumaierStep_exact:
  assumes "whole s" and "list_all whole xs" and "\<bar>s\<bar> + sum_list (map abs xs) \<le> 2 ^ 53"
  shows "foldl kahanBabuskaNeumaierStep \<lparr>rSum = s, rErr = 0\<rparr> xs =
         \<lparr>rSum = s + sum_list xs, rErr = 0\<rparr>"
  using assms
proof (induction xs arbitrary: s)
  case Nil
  then show ?case by simp
next
  case (Cons x xs)
  have nn: "0 \<le> sum_list (map abs xs)"
    by (rule sum_list_nonneg) auto
  from Cons.prems have wx: "whole x" and wxs: "list_all whole xs"
    by simp_all
  from Cons.prems(3) nn have "\<bar>s\<bar> + \<bar>x\<bar> \<le> 2 ^ 53"
    by simp
  with Cons.prems(1) wx
  have step: "kahanBabuskaNeumaierStep \<lparr>rSum = s, rErr = 0\<rparr> x = \<lparr>rSum = s + x, rErr = 0\<rparr>"
    by (rule kahanBabuskaNeumaierStep_exact)
  have "\<bar>s + x\<bar> + sum_list (map abs xs) \<le> 2 ^ 53"
    using Cons.prems(3) by simp
  with Cons.IH [OF whole_add [OF Cons.prems(1) wx] wxs]
  show ?case
    by (simp add: step add.assoc)
qed

lemma sqlite_sum_Nil: "sqlite_sum [] = 0"
  by (simp add: sqlite_sum_def round_double_def)

lemma whole_sum_list: "list_all whole xs \<Longrightarrow> whole (sum_list xs)"
  by (induction xs) (simp_all add: whole_zero whole_add)

lemma sqlite_sum_exact:
  assumes "list_all whole xs" and "sum_list (map abs xs) \<le> 2 ^ 53"
  shows "sqlite_sum xs = sum_list xs"
proof -
  have "foldl kahanBabuskaNeumaierStep \<lparr>rSum = 0, rErr = 0\<rparr> xs =
      \<lparr>rSum = 0 + sum_list xs, rErr = 0\<rparr>"
    using assms by (intro foldl_kahanBabuskaNeumaierStep_exact whole_zero) simp_all
  moreover have "\<bar>sum_list xs\<bar> \<le> 2 ^ 53"
    using sum_list_abs [of xs] assms(2) by linarith
  ultimately show ?thesis
    using whole_sum_list [OF assms(1)] by (simp add: sqlite_sum_def round_double_whole)
qed

lemma sqlite_sum_total_jumlah:
  assumes "exact_amounts rs"
  shows "sqlite_sum (map col_jumlah rs) = total_jumlah rs"
proof -
  have "list_all whole (map col_jumlah rs)"
    using assms by (simp add: exact_amounts_def list.pred_map comp_def)
  moreover have "sum_list (map abs (map col_jumlah rs)) \<le> 2 ^ 53"
    using assms by (simp add: exact_amounts_def comp_def)
  ultimately show ?thesis
    unfolding total_jumlah_def by (rule sqlite_sum_exact)
qed

lemma sum_list_abs_filter:
  "sum_list (map (\<lambda>r. \<bar>col_jumlah r\<bar>) (filter P rs)) \<le> sum_list (map (\<lambda>r. \<bar>col_jumlah r\<bar>) rs)"
  by (induction rs) (simp_all add: add_increasing)

lemma exact_amounts_filter: "exact_amounts rs \<Longrightarrow> exact_amounts (filter P rs)"
  using sum_list_abs_filter [of P rs] by (auto simp: exact_amounts_def list_all_iff)

lemma exact_amounts_finite:
  assumes "exact_amounts rs"
  shows "finite_amounts rs"
proof -
  have "(2::real) ^ 53 < 2 ^ 1023"
    by (rule power_strict_increasing) simp_all
  with assms show ?thesis
    unfolding exact_amounts_def finite_amounts_def by (elim conjE) (rule le_less_trans)
qed

lemma finite_amounts_filter: "finite_amounts rs \<Longrightarrow> finite_amounts (filter P rs)"
  unfolding finite_amounts_def using sum_list_abs_filter [of P rs] by (rule le_less_trans)

lemma exact_amounts_Nil: "exact_amounts []"
  by (simp add: exact_amounts_def)

section \<open>Sums that round\<close>

lemma ulp_53:
  assumes "2 ^ 53 \<le> \<bar>x\<bar>" and "\<bar>x\<bar> < 2 ^ 54"
  shows "ulp x = 2"
proof -
  have "exponent x = int 53"
    using assms by (intro exponent_eqI) simp_all
  then show ?thesis
    by (simp add: ulp_def)
qed

lemma round_double_big:
  "round_double 10000000000000000 = 10000000000000000"
  "round_double 10000000000000001 = 10000000000000000"
  "round_double 10000000000000002 = 10000000000000002"
  by (simp_all add: round_double_def ulp_53 round_even_def Let_def)

lemma round_double_small:
  "round_double 0 = 0"
  "round_double 1 = 1"
  "round_double (- 1) = - 1"
  "round_double 2 = 2"
  using round_double_of_int [of 0] round_double_of_int [of 1] round_double_of_int [of "- 1"]
    round_double_of_int [of 2]
  by simp_all

lemma sqlite_sum_big:
  "sqlite_sum [10000000000000000, 1] = 10000000000000000"
  "sqlite_sum [10000000000000000] = 10000000000000000"
  "sqlite_sum [1] = 1"
  "sqlite_sum [10000000000000000, 1, 1] = 10000000000000002"
  by (simp_all add: sqlite_sum_def kahanBabuskaNeumaierStep_def Let_def round_double_big
      round_double_small)

section \<open>Totals\<close>

lemma where_tanggal_matching:
  "valid_date d \<Longrightarrow> where_tanggal (strftime_ymd d) rs = matching (Some d) rs"
  by (auto simp: where_tanggal_def matching_def row_date_def parse_ymd_iff intro: filter_cong)

lemma fetchone_query: "fetchone (query (t # ts)) = t"
  by (simp add: fetchone_def query_def)

lemma fetchall_query: "fetchall (query ts) = PyList ts"
  by (simp add: fetchall_def query_def)

lemma float_total_Nil: "float_total [] = 0"
  by (simp add: float_total_def sqlite_sum_Nil)

lemma float_total_exact: "exact_amounts rs \<Longrightarrow> float_total rs = total_jumlah rs"
  by (simp add: float_total_def sqlite_sum_total_jumlah)

lemma total_jumlah_Nil: "total_jumlah [] = 0"
  by (simp add: total_jumlah_def)

lemma coalesce_sum_jumlah:
  "(if sum_jumlah rs \<noteq> PyNone then sum_jumlah rs else PyFloat 0) = PyFloat (float_total rs)"
  by (simp add: sum_jumlah_def float_total_def sqlite_sum_Nil)

lemma hitung_total_all:
  assumes "online db" and "tabel db = Some rs"
  shows "hitung_total_pengeluaran db None = (Inr (PyFloat (float_total rs)), db)"
proof -
  have "cursor_execute db SumJumlah = Inr (db, query [PyTuple [sum_jumlah rs]])"
    using assms by simp
  from execute_query_one [OF assms(1) this] show ?thesis
    by (simp add: hitung_total_pengeluaran_def fetchone_query coalesce_sum_jumlah)
qed

lemma hitung_total_tanggal:
  assumes "online db" and "tabel db = Some rs"
  shows "hitung_total_pengeluaran db (Some d) =
     (Inr (PyFloat (float_total (where_tanggal (strftime_ymd d) rs))), db)"
proof -
  have "cursor_execute db (SumJumlahTanggal (strftime_ymd d)) =
      Inr (db, query [PyTuple [sum_jumlah (where_tanggal (strftime_ymd d) rs)]])"
    using assms by simp
  from execute_query_one [OF assms(1) this] show ?thesis
    by (simp add: hitung_total_pengeluaran_def fetchone_query coalesce_sum_jumlah)
qed

lemma hitung_total_matching:
  assumes "online db" and "tabel db = Some rs" and "given tgl"
  shows "hitung_total_pengeluaran db tgl = (Inr (PyFloat (float_total (matching tgl rs))), db)"
proof (cases tgl)
  case None
  then show ?thesis
    using hitung_total_all [OF assms(1,2)] by (simp add: matching_def)
next
  case (Some d)
  with assms(3) have "valid_date d" by (simp add: given_def)
  then show ?thesis
    using hitung_total_tanggal [OF assms(1,2), of d] Some
    by (simp add: where_tanggal_matching)
qed

lemma hitung_total_unavailable:
  assumes "\<not> online db \<or> tabel db = None"
  shows "hitung_total_pengeluaran db tgl = (Inr (PyFloat 0), db)"
proof -
  have "execute_query db sql False (Some ''one'') = (Inr PyNone, db)" if "sql \<noteq> CreateTable" for sql
    using assms that
    by (auto simp: execute_query_offline execute_query_no_table on_exception_sqlite)
  then show ?thesis
    by (simp add: hitung_total_pengeluaran_def split: option.split)
qed

text \<open>
  C1, as the code has it. On a file that can be read and holds the table,
  \<^verbatim>\<open>hitung_total_pengeluaran\<close> changes nothing and returns the floating-point sum that the
  engine computes over exactly the rows that match the filter (all rows without a date, the
  rows of that date otherwise), as long as that sum does not overflow; when no row matches
  it returns \<^verbatim>\<open>0.0\<close>; and when the matching amounts are whole numbers whose magnitudes add
  up to at most \<open>2 ^ 53\<close>, what it returns is their arithmetic sum.
\<close>

theorem hitung_total_pengeluaran_float_sum:
  assumes "online db" and "tabel db = Some rs" and "given tgl"
  shows "(finite_amounts (matching tgl rs) \<longrightarrow>
            hitung_total_pengeluaran db tgl =
              (Inr (PyFloat (float_total (matching tgl rs))), db)) \<and>
         (matching tgl rs = [] \<longrightarrow> hitung_total_pengeluaran db tgl = (Inr (PyFloat 0), db)) \<and>
         (exact_amounts (matching tgl rs) \<longrightarrow>
            hitung_total_pengeluaran db tgl = (Inr (PyFloat (total_jumlah (matching tgl rs))), db))"
  using hitung_total_matching [OF assms] by (auto simp: float_total_Nil float_total_exact)

lemma matching_ledger:
  "matching None [lunch_row, bus_row] = [lunch_row, bus_row]"
  "matching (Some hari) [lunch_row, bus_row] = [lunch_row, bus_row]"
  "matching (Some besok) [lunch_row, bus_row] = []"
  using hari_neq_besok by (auto simp: matching_def row_date_lunch_row row_date_bus_row)

lemma total_ledger: "total_jumlah [lunch_row, bus_row] = 30000"
  by (simp add: total_jumlah_def lunch_row_def bus_row_def)

lemma whole_numeral: "whole (numeral n)"
  by (simp add: whole_def)

lemma exact_ledger: "exact_amounts [lunch_row, bus_row]"
  by (simp add: exact_amounts_def lunch_row_def bus_row_def whole_numeral)

lemma float_total_ledger: "float_total [lunch_row, bus_row] = 30000"
  by (simp add: float_total_exact [OF exact_ledger] total_ledger)

theorem hitung_total_pengeluaran_float_sum_witness:
  "online ledger \<and> tabel ledger = Some [lunch_row, bus_row] \<and>
   given None \<and> given (Some hari) \<and> given (Some besok) \<and>
   finite_amounts (matching None [lunch_row, bus_row]) \<and>
   float_total (matching None [lunch_row, bus_row]) = 30000 \<and>
   exact_amounts (matching None [lunch_row, bus_row]) \<and>
   exact_amounts (matching (Some hari) [lunch_row, bus_row]) \<and>
   hitung_total_pengeluaran ledger None = (Inr (PyFloat 30000), ledger) \<and>
   hitung_total_pengeluaran ledger (Some hari) = (Inr (PyFloat 30000), ledger) \<and>
   matching (Some besok) [lunch_row, bus_row] = [] \<and>
   hitung_total_pengeluaran ledger (Some besok) = (Inr (PyFloat 0), ledger)"
proof -
  have h: "online ledger" "tabel ledger = Some [lunch_row, bus_row]"
    by (simp_all add: ledger_def)
  have g: "given None" "given (Some hari)" "given (Some besok)"
    by (simp_all add: given_def valid_hari valid_besok)
  show ?thesis
    using hitung_total_pengeluaran_float_sum [OF h g(1)]
      hitung_total_pengeluaran_float_sum [OF h g(2)]
      hitung_total_pengeluaran_float_sum [OF h g(3)]
    by (simp add: h g matching_ledger total_ledger exact_ledger float_total_ledger
        float_total_Nil exact_amounts_finite [OF exact_ledger])
qed

section \<open>A total that is not the arithmetic sum\<close>

lemma strftime_ymd_tanggal:
  "strftime_ymd (tanggal rumah) = ''2024-01-10''"
  "strftime_ymd (tanggal paku) = ''2024-01-10''"
  "strftime_ymd (tanggal parkir) = ''2024-01-10''"
  by (simp_all add: rumah_def paku_def parkir_def strftime_hari)

lemma tambah_rumah:
  "tambah_transaksi \<lparr>online = True, tabel = Some [], sequence = 0\<rparr> rumah =
     (Inr True, \<lparr>online = True, tabel = Some [rumah_row], sequence = 1\<rparr>)"
  by (simp add: tambah_transaksi_def insert_transaksi_def execute_query_def enter_def
      largest_rowid_def max_rowid_def strftime_ymd_tanggal)
    (simp add: rumah_def rumah_row_def)

lemma tambah_paku:
  "tambah_transaksi \<lparr>online = True, tabel = Some [rumah_row], sequence = 1\<rparr> paku =
     (Inr True, papan)"
  by (simp add: tambah_transaksi_def insert_transaksi_def execute_query_def enter_def
      largest_rowid_def max_rowid_def strftime_ymd_tanggal papan_def)
    (simp add: paku_def paku_row_def rumah_row_def)

lemma tambah_parkir: "tambah_transaksi papan parkir = (Inr True, papan3)"
  by (simp add: tambah_transaksi_def insert_transaksi_def execute_query_def enter_def
      largest_rowid_def max_rowid_def strftime_ymd_tanggal papan_def papan3_def)
    (simp add: parkir_def parkir_row_def paku_row_def rumah_row_def)

lemma papan_run: "run (AnggaranHarian (new_file True)) [Tambah rumah, Tambah paku] = papan"
  by (simp add: AnggaranHarian_new_file tambah_rumah tambah_paku)

lemma papan3_run:
  "run (AnggaranHarian (new_file True)) [Tambah rumah, Tambah paku, Tambah parkir] = papan3"
  by (simp add: AnggaranHarian_new_file tambah_rumah tambah_paku tambah_parkir)

lemma float_total_papan:
  "float_total [rumah_row, paku_row] = 10000000000000000"
  "float_total [rumah_row] = 10000000000000000"
  "float_total [paku_row] = 1"
  "float_total [parkir_row] = 1"
  "float_total [rumah_row, paku_row, parkir_row] = 10000000000000002"
  by (simp_all add: float_total_def rumah_row_def paku_row_def parkir_row_def sqlite_sum_big)

lemma hitung_total_papan:
  "hitung_total_pengeluaran papan None = (Inr (PyFloat 10000000000000000), papan)"
proof -
  have "online papan" "tabel papan = Some [rumah_row, paku_row]"
    by (simp_all add: papan_def)
  from hitung_total_all [OF this] show ?thesis
    by (simp add: float_total_papan)
qed

lemma hitung_total_papan3:
  "hitung_total_pengeluaran papan3 None = (Inr (PyFloat 10000000000000002), papan3)"
proof -
  have "online papan3" "tabel papan3 = Some [rumah_row, paku_row, parkir_row]"
    by (simp_all add: papan3_def)
  from hitung_total_all [OF this] show ?thesis
    by (simp add: float_total_papan)
qed

text \<open>
  C1 as the specification states it does not hold. On a new ledger, add a house of ten
  quadrillion and a nail of 1: both amounts are doubles and their arithmetic sum is
  10000000000000001, but the total returned is 10000000000000000, the nearest double.
\<close>

theorem total_not_arithmetic_sum:
  "fst (hitung_total_pengeluaran
          (run (AnggaranHarian (new_file True)) [Tambah rumah, Tambah paku]) None) =
     Inr (PyFloat 10000000000000000) \<and>
   rows (run (AnggaranHarian (new_file True)) [Tambah rumah, Tambah paku]) =
     [rumah_row, paku_row] \<and>
   matching None [rumah_row, paku_row] = [rumah_row, paku_row] \<and>
   col_jumlah rumah_row = 10000000000000000 \<and> col_jumlah paku_row = 1 \<and>
   total_jumlah [rumah_row, paku_row] = 10000000000000001"
proof -
  have 1: "fst (hitung_total_pengeluaran
      (run (AnggaranHarian (new_file True)) [Tambah rumah, Tambah paku]) None) =
      Inr (PyFloat 10000000000000000)"
    unfolding papan_run by (simp add: hitung_total_papan)
  have 2: "rows (run (AnggaranHarian (new_file True)) [Tambah rumah, Tambah paku]) =
      [rumah_row, paku_row]"
    unfolding papan_run by (simp add: rows_def papan_def)
  have 3: "matching None [rumah_row, paku_row] = [rumah_row, paku_row]"
    by (simp add: matching_def)
  have 4: "col_jumlah rumah_row = 10000000000000000" "col_jumlah paku_row = 1"
    by (simp_all add: rumah_row_def paku_row_def)
  have 5: "total_jumlah [rumah_row, paku_row] = 10000000000000001"
    by (simp add: total_jumlah_def 4)
  from 1 2 3 4 5 show ?thesis
    by (intro conjI)
qed

section \<open>The listing: failure and emptiness\<close>

lemma select_unavailable:
  assumes "\<not> online db \<or> tabel db = None"
  shows "execute_query db SelectTransaksi False (Some ''all'') = (Inr PyNone, db)"
  using assms by (auto simp: execute_query_offline execute_query_no_table on_exception_sqlite)

lemma select_available:
  assumes "online db" and "tabel db = Some rs"
  shows "execute_query db SelectTransaksi False (Some ''all'') =
     (Inr (PyList (map select_tuple (order_by_tanggal_id_desc rs))), db)"
proof -
  have "cursor_execute db SelectTransaksi =
      Inr (db, query (map select_tuple (order_by_tanggal_id_desc rs)))"
    using assms by simp
  from execute_query_all [OF assms(1) this] show ?thesis
    by (simp add: fetchall_query)
qed

lemma get_dataframe_unavailable:
  "\<not> online db \<or> tabel db = None \<Longrightarrow> get_dataframe_transaksi db = (None, db)"
  by (simp add: get_dataframe_transaksi_def select_unavailable)

lemma get_dataframe_available:
  assumes "online db" and "tabel db = Some rs"
  shows "get_dataframe_transaksi db =
     (those (map frame_row (map select_tuple (order_by_tanggal_id_desc rs))), db)"
  by (simp add: get_dataframe_transaksi_def select_available [OF assms] data_frame_def)

lemma get_dataframe_empty:
  "online db \<Longrightarrow> tabel db = Some [] \<Longrightarrow> get_dataframe_transaksi db = (Some [], db)"
  by (simp add: get_dataframe_available order_by_tanggal_id_desc_def)

text \<open>
  C7. When the fetch of the listing fails (the file cannot be opened, or the statement raises
  \<^verbatim>\<open>sqlite3.Error\<close>), \<^verbatim>\<open>get_dataframe_transaksi\<close> returns \<^verbatim>\<open>None\<close>; on a readable table
  without rows it returns the empty frame; the two results differ.
\<close>

theorem get_dataframe_failure_marker:
  assumes "enter db = Inl Sqlite3Error \<or> cursor_execute db SelectTransaksi = Inl Sqlite3Error"
    and "online db'" and "tabel db' = Some []"
  shows "fst (get_dataframe_transaksi db) = None \<and>
         fst (get_dataframe_transaksi db') = Some [] \<and>
         fst (get_dataframe_transaksi db) \<noteq> fst (get_dataframe_transaksi db')"
proof -
  from assms(1) have "execute_query db SelectTransaksi False (Some ''all'') = (Inr PyNone, db)"
    by (simp add: execute_query_failed on_exception_sqlite)
  then have "fst (get_dataframe_transaksi db) = None"
    by (simp add: get_dataframe_transaksi_def)
  moreover have "fst (get_dataframe_transaksi db') = Some []"
    by (simp add: get_dataframe_empty [OF assms(2,3)])
  ultimately show ?thesis by simp
qed

theorem get_dataframe_failure_marker_witness:
  "enter (new_file False) = Inl Sqlite3Error \<and>
   online (AnggaranHarian (new_file True)) \<and>
   tabel (AnggaranHarian (new_file True)) = Some [] \<and>
   fst (get_dataframe_transaksi (new_file False)) = None \<and>
   fst (get_dataframe_transaksi (AnggaranHarian (new_file True))) = Some []"
proof -
  have e: "enter (new_file False) = Inl Sqlite3Error"
    by (simp add: enter_def new_file_def)
  have a: "online (AnggaranHarian (new_file True))"
    "tabel (AnggaranHarian (new_file True)) = Some []"
    by (simp_all add: AnggaranHarian_new_file)
  show ?thesis
    using get_dataframe_failure_marker [OF disjI1 [OF e] a] by (simp add: e a)
qed


section \<open>Sums by category\<close>

lemma store_fresh:
  "k \<notin> set ks \<Longrightarrow>
   store (map (\<lambda>k. (PyStr k, f k)) ks) (PyStr k) v = map (\<lambda>k. (PyStr k, f k)) ks @ [(PyStr k, v)]"
  by (induction ks) auto

lemma dict_of_rows_groups:
  "distinct (ks0 @ ks) \<Longrightarrow>
   dict_of_rows (map (\<lambda>k. (PyStr k, f k)) ks0) (map (\<lambda>k. PyTuple [PyStr k, f k]) ks) =
     Inr (map (\<lambda>k. (PyStr k, f k)) (ks0 @ ks))"
proof (induction ks arbitrary: ks0)
  case Nil
  then show ?case by simp
next
  case (Cons k ks)
  from Cons.prems have fresh: "k \<notin> set ks0" and d: "distinct ((ks0 @ [k]) @ ks)"
    by auto
  have "dict_of_rows (map (\<lambda>k. (PyStr k, f k)) ks0) (map (\<lambda>k. PyTuple [PyStr k, f k]) (k # ks)) =
      dict_of_rows (map (\<lambda>k. (PyStr k, f k)) (ks0 @ [k])) (map (\<lambda>k. PyTuple [PyStr k, f k]) ks)"
    by (simp add: setitem_def store_fresh [OF fresh])
  also have "\<dots> = Inr (map (\<lambda>k. (PyStr k, f k)) ((ks0 @ [k]) @ ks))"
    by (rule Cons.IH [OF d])
  finally show ?case by simp
qed

lemma distinct_kategori_terpakai: "distinct (kategori_terpakai rs)"
  by (simp add: kategori_terpakai_def)

lemma set_kategori_terpakai: "set (kategori_terpakai rs) = col_kategori ` set rs"
  by (simp add: kategori_terpakai_def)

lemma kategori_terpakai_Nil: "kategori_terpakai rs = [] \<longleftrightarrow> rs = []"
  using set_kategori_terpakai [of rs] by (metis image_is_empty set_empty)

lemma sum_jumlah_of_kategori:
  assumes "k \<in> set (kategori_terpakai rs)"
  shows "sum_jumlah (filter (\<lambda>r. col_kategori r = k) rs) = PyFloat (float_total (of_kategori k rs))"
proof -
  from assms obtain r where "r \<in> set rs" "col_kategori r = k"
    by (auto simp: set_kategori_terpakai)
  then have "filter (\<lambda>r. col_kategori r = k) rs \<noteq> []"
    by (auto simp: filter_empty_conv)
  then show ?thesis
    by (simp add: sum_jumlah_def float_total_def of_kategori_def)
qed

lemma group_by_kategori_eq:
  "group_by_kategori rs =
     map (\<lambda>k. PyTuple [PyStr k, PyFloat (float_total (of_kategori k rs))]) (kategori_terpakai rs)"
  unfolding group_by_kategori_def kategori_terpakai_def [symmetric]
  by (rule map_cong) (simp_all add: sum_jumlah_of_kategori)

lemma dict_of_group_by:
  "(if truthy (PyList (group_by_kategori rs))
    then dict_of_rows [] (group_by_kategori rs) else Inr []) = Inr (float_per_kategori rs)"
proof (cases "rs = []")
  case True
  then show ?thesis
    by (simp add: group_by_kategori_eq float_per_kategori_def kategori_terpakai_def)
next
  case False
  then have "group_by_kategori rs \<noteq> []"
    by (simp add: group_by_kategori_eq kategori_terpakai_Nil)
  moreover have "dict_of_rows [] (group_by_kategori rs) = Inr (float_per_kategori rs)"
    using dict_of_rows_groups [of "[]" "kategori_terpakai rs"
        "\<lambda>k. PyFloat (float_total (of_kategori k rs))"]
    by (simp add: group_by_kategori_eq float_per_kategori_def distinct_kategori_terpakai)
  ultimately show ?thesis by simp
qed

lemma per_kategori_all:
  assumes "online db" and "tabel db = Some rs"
  shows "get_pengeluaran_per_kategori db None = (Inr (float_per_kategori rs), db)"
proof -
  have "cursor_execute db SumKategori = Inr (db, query (group_by_kategori rs))"
    using assms by simp
  from execute_query_all [OF assms(1) this] show ?thesis
    using dict_of_group_by [of rs]
    by (simp add: get_pengeluaran_per_kategori_def fetchall_query split: if_splits)
qed

lemma per_kategori_tanggal:
  assumes "online db" and "tabel db = Some rs"
  shows "get_pengeluaran_per_kategori db (Some d) =
     (Inr (float_per_kategori (where_tanggal (strftime_ymd d) rs)), db)"
proof -
  have "cursor_execute db (SumKategoriTanggal (strftime_ymd d)) =
      Inr (db, query (group_by_kategori (where_tanggal (strftime_ymd d) rs)))"
    using assms by simp
  from execute_query_all [OF assms(1) this] show ?thesis
    using dict_of_group_by [of "where_tanggal (strftime_ymd d) rs"]
    by (simp add: get_pengeluaran_per_kategori_def fetchall_query split: if_splits)
qed

lemma per_kategori_matching:
  assumes "online db" and "tabel db = Some rs" and "given tgl"
  shows "get_pengeluaran_per_kategori db tgl = (Inr (float_per_kategori (matching tgl rs)), db)"
proof (cases tgl)
  case None
  then show ?thesis
    using per_kategori_all [OF assms(1,2)] by (simp add: matching_def)
next
  case (Some d)
  with assms(3) have "valid_date d" by (simp add: given_def)
  then show ?thesis
    using per_kategori_tanggal [OF assms(1,2), of d] Some
    by (simp add: where_tanggal_matching)
qed

lemma per_kategori_unavailable:
  assumes "\<not> online db \<or> tabel db = None"
  shows "get_pengeluaran_per_kategori db tgl = (Inr [], db)"
proof -
  have "execute_query db sql False (Some ''all'') = (Inr PyNone, db)" if "sql \<noteq> CreateTable" for sql
    using assms that
    by (auto simp: execute_query_offline execute_query_no_table on_exception_sqlite)
  then show ?thesis
    by (simp add: get_pengeluaran_per_kategori_def split: option.split)
qed


section \<open>The sums by category and the total\<close>

lemma sum_list_indicator_absent:
  "x \<notin> set ks \<Longrightarrow> sum_list (map (\<lambda>k. if x = k then c else 0) ks) = (0::real)"
  by (induction ks) auto

lemma sum_list_indicator:
  "distinct ks \<Longrightarrow> x \<in> set ks \<Longrightarrow> sum_list (map (\<lambda>k. if x = k then c else 0) ks) = (c::real)"
  by (induction ks) (auto simp: sum_list_indicator_absent)

lemma total_of_kategori_Cons:
  "total_jumlah (of_kategori k (r # rs)) =
     (if col_kategori r = k then col_jumlah r else 0) + total_jumlah (of_kategori k rs)"
  by (simp add: total_jumlah_def of_kategori_def)

lemma partition_by_kategori:
  "distinct ks \<Longrightarrow> col_kategori ` set rs \<subseteq> set ks \<Longrightarrow>
   sum_list (map (\<lambda>k. total_jumlah (of_kategori k rs)) ks) = total_jumlah rs"
proof (induction rs)
  case Nil
  then show ?case by (simp add: total_jumlah_def of_kategori_def)
next
  case (Cons r rs)
  from Cons.prems have in_ks: "col_kategori r \<in> set ks" and sub: "col_kategori ` set rs \<subseteq> set ks"
    by auto
  have "sum_list (map (\<lambda>k. total_jumlah (of_kategori k (r # rs))) ks) =
      sum_list (map (\<lambda>k. if col_kategori r = k then col_jumlah r else 0) ks) +
      sum_list (map (\<lambda>k. total_jumlah (of_kategori k rs)) ks)"
    by (simp add: total_of_kategori_Cons sum_list_addf)
  also have "\<dots> = col_jumlah r + total_jumlah rs"
    by (simp add: sum_list_indicator [OF Cons.prems(1) in_ks] Cons.IH [OF Cons.prems(1) sub])
  finally show ?case by (simp add: total_jumlah_def)
qed

lemma map_of_float_per_kategori:
  "map_of (float_per_kategori rs) (PyStr k) =
     (if k \<in> col_kategori ` set rs then Some (PyFloat (float_total (of_kategori k rs))) else None)"
proof -
  have "map_of (map (\<lambda>k. (PyStr k, f k)) ks) (PyStr k) = (if k \<in> set ks then Some (f k) else None)"
    for f :: "string \<Rightarrow> pyval" and ks
    by (induction ks) auto
  then show ?thesis
    by (simp add: float_per_kategori_def set_kategori_terpakai)
qed

lemma keys_float_per_kategori: "map fst (float_per_kategori rs) = map PyStr (kategori_terpakai rs)"
  by (simp add: float_per_kategori_def comp_def)

lemma exact_of_kategori: "exact_amounts rs \<Longrightarrow> exact_amounts (of_kategori k rs)"
  unfolding of_kategori_def by (rule exact_amounts_filter)

lemma float_per_kategori_exact: "exact_amounts rs \<Longrightarrow> float_per_kategori rs = per_kategori rs"
  by (simp add: float_per_kategori_def per_kategori_def float_total_exact exact_of_kategori)

lemma values_per_kategori:
  "map snd (per_kategori rs) =
     map PyFloat (map (\<lambda>k. total_jumlah (of_kategori k rs)) (kategori_terpakai rs))"
  by (simp add: per_kategori_def comp_def)

text \<open>
  C2, as the code has it. On a file that can be read and holds the table,
  \<^verbatim>\<open>get_pengeluaran_per_kategori\<close> returns a dict with one key for each category that has a
  matching row, mapped to the floating-point sum that the engine computes over exactly its
  rows, as long as no sum overflows; a category without a row is not a key; no key occurs
  twice. When the matching amounts
  are whole numbers whose magnitudes add up to at most \<open>2 ^ 53\<close>, it is the dict of the
  arithmetic sums, and its values add up to what \<^verbatim>\<open>hitung_total_pengeluaran\<close> returns.
  Without a date the matching rows are all rows.
\<close>

theorem get_pengeluaran_per_kategori_groups:
  assumes "online db" and "tabel db = Some rs" and "given tgl"
  shows "\<exists>d. get_pengeluaran_per_kategori db tgl = (Inr d, db) \<and>
     (finite_amounts (matching tgl rs) \<longrightarrow>
        (\<forall>k. map_of d (PyStr k) =
           (if k \<in> col_kategori ` set (matching tgl rs)
            then Some (PyFloat (float_total (of_kategori k (matching tgl rs)))) else None))) \<and>
     set (map fst d) = PyStr ` col_kategori ` set (matching tgl rs) \<and>
     distinct (map fst d) \<and>
     (exact_amounts (matching tgl rs) \<longrightarrow>
        d = per_kategori (matching tgl rs) \<and>
        (\<exists>xs. map snd d = map PyFloat xs \<and>
              hitung_total_pengeluaran db tgl = (Inr (PyFloat (sum_list xs)), db) \<and>
              sum_list xs = total_jumlah (matching tgl rs)))"
proof (intro exI [of _ "float_per_kategori (matching tgl rs)"] conjI impI)
  let ?ms = "matching tgl rs"
  let ?xs = "map (\<lambda>k. total_jumlah (of_kategori k ?ms)) (kategori_terpakai ?ms)"
  show "get_pengeluaran_per_kategori db tgl = (Inr (float_per_kategori ?ms), db)"
    by (rule per_kategori_matching [OF assms])
  show "\<forall>k. map_of (float_per_kategori ?ms) (PyStr k) =
        (if k \<in> col_kategori ` set ?ms
         then Some (PyFloat (float_total (of_kategori k ?ms))) else None)"
    if "finite_amounts ?ms"
    by (simp add: map_of_float_per_kategori)
  show "set (map fst (float_per_kategori ?ms)) = PyStr ` col_kategori ` set ?ms"
    by (simp add: keys_float_per_kategori set_kategori_terpakai)
  show "distinct (map fst (float_per_kategori ?ms))"
    by (simp add: keys_float_per_kategori distinct_map distinct_kategori_terpakai inj_on_def)
  assume e: "exact_amounts ?ms"
  show eq: "float_per_kategori ?ms = per_kategori ?ms"
    by (rule float_per_kategori_exact [OF e])
  have sum: "sum_list ?xs = total_jumlah ?ms"
    by (rule partition_by_kategori) (simp_all add: distinct_kategori_terpakai set_kategori_terpakai)
  have "hitung_total_pengeluaran db tgl = (Inr (PyFloat (sum_list ?xs)), db)"
    unfolding sum using hitung_total_matching [OF assms] by (simp add: float_total_exact [OF e])
  with sum show "\<exists>xs. map snd (float_per_kategori ?ms) = map PyFloat xs \<and>
      hitung_total_pengeluaran db tgl = (Inr (PyFloat (sum_list xs)), db) \<and>
      sum_list xs = total_jumlah ?ms"
    unfolding eq using values_per_kategori [of ?ms] by blast
qed

lemma kategori_terpakai_ledger: "kategori_terpakai [lunch_row, bus_row] = [''Food'', ''Transport'']"
proof -
  have "sort [''Food'', ''Transport''] = [''Food'', ''Transport'']"
    by code_simp
  then show ?thesis
    by (simp add: kategori_terpakai_def lunch_row_def bus_row_def)
qed

lemma per_kategori_ledger:
  "per_kategori [lunch_row, bus_row] = [(PyStr ''Food'', PyFloat 25000), (PyStr ''Transport'', PyFloat 5000)]"
  unfolding per_kategori_def kategori_terpakai_ledger
  by (simp add: total_jumlah_def of_kategori_def lunch_row_def bus_row_def)

theorem get_pengeluaran_per_kategori_groups_witness:
  "online ledger \<and> tabel ledger = Some [lunch_row, bus_row] \<and> given None \<and>
   finite_amounts (matching None [lunch_row, bus_row]) \<and>
   exact_amounts (matching None [lunch_row, bus_row]) \<and>
   float_total (of_kategori ''Food'' (matching None [lunch_row, bus_row])) = 25000 \<and>
   get_pengeluaran_per_kategori ledger None =
     (Inr [(PyStr ''Food'', PyFloat 25000), (PyStr ''Transport'', PyFloat 5000)], ledger) \<and>
   map_of [(PyStr ''Food'', PyFloat 25000), (PyStr ''Transport'', PyFloat 5000)] (PyStr ''Rent'') = None \<and>
   (\<exists>xs. map PyFloat [25000, 5000] = map PyFloat xs \<and>
      hitung_total_pengeluaran ledger None = (Inr (PyFloat (sum_list xs)), ledger) \<and>
      sum_list xs = 30000)"
proof -
  have h: "online ledger" "tabel ledger = Some [lunch_row, bus_row]" "given None"
    by (simp_all add: ledger_def given_def)
  have e: "exact_amounts (matching None [lunch_row, bus_row])"
    by (simp add: matching_ledger exact_ledger)
  from get_pengeluaran_per_kategori_groups [OF h] e
  obtain d xs where d: "get_pengeluaran_per_kategori ledger None = (Inr d, ledger)"
    and p: "d = per_kategori (matching None [lunch_row, bus_row])"
    and v: "map snd d = map PyFloat xs"
    and t: "hitung_total_pengeluaran ledger None = (Inr (PyFloat (sum_list xs)), ledger)"
    and s: "sum_list xs = total_jumlah (matching None [lunch_row, bus_row])"
    by blast
  from p have p': "d = [(PyStr ''Food'', PyFloat 25000), (PyStr ''Transport'', PyFloat 5000)]"
    by (simp add: matching_ledger per_kategori_ledger)
  have f: "finite_amounts (matching None [lunch_row, bus_row])"
    by (rule exact_amounts_finite [OF e])
  have "exact_amounts (of_kategori ''Food'' (matching None [lunch_row, bus_row]))"
    by (rule exact_of_kategori [OF e])
  then have "float_total (of_kategori ''Food'' (matching None [lunch_row, bus_row])) =
      total_jumlah (of_kategori ''Food'' (matching None [lunch_row, bus_row]))"
    by (rule float_total_exact)
  then have ft: "float_total (of_kategori ''Food'' (matching None [lunch_row, bus_row])) = 25000"
    by (simp add: matching_def total_jumlah_def of_kategori_def lunch_row_def bus_row_def)
  have "map PyFloat [25000, 5000] = map PyFloat xs"
    using v unfolding p' by simp
  moreover have "sum_list xs = 30000"
    by (simp add: s matching_ledger total_ledger)
  ultimately have x: "\<exists>xs. map PyFloat [25000, 5000] = map PyFloat xs \<and>
      hitung_total_pengeluaran ledger None = (Inr (PyFloat (sum_list xs)), ledger) \<and>
      sum_list xs = 30000"
    using t by blast
  have r: "map_of [(PyStr ''Food'', PyFloat 25000), (PyStr ''Transport'', PyFloat 5000)]
      (PyStr ''Rent'') = None"
    by simp
  from h f e ft d [unfolded p'] r x show ?thesis
    by (intro conjI)
qed

section \<open>Sums by category that do not add up to the total\<close>

lemma kategori_terpakai_papan3:
  "kategori_terpakai [rumah_row, paku_row, parkir_row] = [''Papan'', ''Transport'']"
proof -
  have "sort [''Papan'', ''Transport''] = [''Papan'', ''Transport'']"
    by code_simp
  then show ?thesis
    by (simp add: kategori_terpakai_def rumah_row_def paku_row_def parkir_row_def)
qed

lemma of_kategori_papan3:
  "of_kategori ''Papan'' [rumah_row, paku_row, parkir_row] = [rumah_row, paku_row]"
  "of_kategori ''Transport'' [rumah_row, paku_row, parkir_row] = [parkir_row]"
  by (simp_all add: of_kategori_def rumah_row_def paku_row_def parkir_row_def)

lemma float_per_kategori_papan3:
  "float_per_kategori [rumah_row, paku_row, parkir_row] =
     [(PyStr ''Papan'', PyFloat 10000000000000000), (PyStr ''Transport'', PyFloat 1)]"
  unfolding float_per_kategori_def kategori_terpakai_papan3
  by (simp add: of_kategori_papan3 float_total_papan)

lemma per_kategori_papan3:
  "get_pengeluaran_per_kategori papan3 None =
     (Inr [(PyStr ''Papan'', PyFloat 10000000000000000), (PyStr ''Transport'', PyFloat 1)], papan3)"
proof -
  have "online papan3" "tabel papan3 = Some [rumah_row, paku_row, parkir_row]"
    by (simp_all add: papan3_def)
  from per_kategori_all [OF this] show ?thesis
    by (simp add: float_per_kategori_papan3)
qed

text \<open>
  C2 as the specification states it does not hold. On a new ledger, add a house of ten
  quadrillion and a nail of 1, both of the category \<^verbatim>\<open>Papan\<close>, and a parking fee of 1 of
  the category \<^verbatim>\<open>Transport\<close>. The dict maps \<^verbatim>\<open>Papan\<close> to 10000000000000000, which is not
  the sum 10000000000000001 of its two amounts, and its two values add up to
  10000000000000001, while the total returned is 10000000000000002.
\<close>

theorem categories_do_not_add_up:
  "fst (get_pengeluaran_per_kategori
          (run (AnggaranHarian (new_file True)) [Tambah rumah, Tambah paku, Tambah parkir]) None) =
     Inr [(PyStr ''Papan'', PyFloat 10000000000000000), (PyStr ''Transport'', PyFloat 1)] \<and>
   fst (hitung_total_pengeluaran
          (run (AnggaranHarian (new_file True)) [Tambah rumah, Tambah paku, Tambah parkir]) None) =
     Inr (PyFloat 10000000000000002) \<and>
   sum_list [10000000000000000, 1 :: real] = 10000000000000001 \<and>
   rows (run (AnggaranHarian (new_file True)) [Tambah rumah, Tambah paku, Tambah parkir]) =
     [rumah_row, paku_row, parkir_row] \<and>
   total_jumlah (of_kategori ''Papan'' [rumah_row, paku_row, parkir_row]) = 10000000000000001"
proof -
  have 1: "fst (get_pengeluaran_per_kategori
      (run (AnggaranHarian (new_file True)) [Tambah rumah, Tambah paku, Tambah parkir]) None) =
      Inr [(PyStr ''Papan'', PyFloat 10000000000000000), (PyStr ''Transport'', PyFloat 1)]"
    unfolding papan3_run by (simp add: per_kategori_papan3)
  have 2: "fst (hitung_total_pengeluaran
      (run (AnggaranHarian (new_file True)) [Tambah rumah, Tambah paku, Tambah parkir]) None) =
      Inr (PyFloat 10000000000000002)"
    unfolding papan3_run by (simp add: hitung_total_papan3)
  have 3: "sum_list [10000000000000000, 1 :: real] = 10000000000000001"
    by simp
  have 4: "rows (run (AnggaranHarian (new_file True)) [Tambah rumah, Tambah paku, Tambah parkir]) =
      [rumah_row, paku_row, parkir_row]"
    unfolding papan3_run by (simp add: rows_def papan3_def)
  have 5: "total_jumlah (of_kategori ''Papan'' [rumah_row, paku_row, parkir_row]) =
      10000000000000001"
    unfolding of_kategori_papan3 by (simp add: total_jumlah_def rumah_row_def paku_row_def)
  from 1 2 3 4 5 show ?thesis
    by (intro conjI)
qed

section \<open>Deleting an identifier that no row has\<close>

lemma tabel_update_same: "tabel db = Some rs \<Longrightarrow> db\<lparr>tabel := Some rs\<rparr> = db"
  by (cases db) simp

lemma filter_absent_id: "i \<notin> col_id ` set rs \<Longrightarrow> filter (\<lambda>r. col_id r \<noteq> i) rs = rs"
  by (induction rs) auto

lemma hapus_available:
  assumes "online db" and "tabel db = Some rs" and "- max_rowid - 1 \<le> i" and "i \<le> max_rowid"
  shows "hapus_transaksi db i =
     (Inr (PyBool True), db\<lparr>tabel := Some (filter (\<lambda>r. col_id r \<noteq> i) rs)\<rparr>)"
proof -
  have "cursor_execute db (DeleteTransaksi i) =
      Inr (db\<lparr>tabel := Some (filter (\<lambda>r. col_id r \<noteq> i) rs)\<rparr>, no_rows)"
    using assms by simp
  from execute_query_plain [OF assms(1) this] show ?thesis
    by (simp add: hapus_transaksi_def)
qed

lemma hapus_unavailable:
  "\<not> online db \<or> tabel db = None \<Longrightarrow> hapus_transaksi db i = (Inr (PyBool False), db)"
  by (auto simp: hapus_transaksi_def execute_query_offline execute_query_no_table
      on_exception_sqlite)

lemma hapus_overflow:
  assumes "online db" and "tabel db = Some rs" and "i < - max_rowid - 1 \<or> max_rowid < i"
  shows "hapus_transaksi db i = (Inl OverflowError, db)"
proof -
  have "cursor_execute db (DeleteTransaksi i) = Inl OverflowError"
    using assms by auto
  from execute_query_raises [OF assms(1) this] show ?thesis
    by (simp add: hapus_transaksi_def on_exception_def)
qed

lemma hapus_absent_unchanged:
  assumes "i \<notin> col_id ` set (rows db)"
  shows "snd (hapus_transaksi db i) = db"
proof (cases "online db \<and> tabel db \<noteq> None")
  case False
  then show ?thesis by (simp add: hapus_unavailable)
next
  case True
  then obtain rs where on: "online db" and rs: "tabel db = Some rs" by auto
  show ?thesis
  proof (cases "i < - max_rowid - 1 \<or> max_rowid < i")
    case True
    then show ?thesis by (simp add: hapus_overflow [OF on rs])
  next
    case False
    then have "hapus_transaksi db i =
        (Inr (PyBool True), db\<lparr>tabel := Some (filter (\<lambda>r. col_id r \<noteq> i) rs)\<rparr>)"
      by (intro hapus_available [OF on rs]) simp_all
    moreover from assms rs have "filter (\<lambda>r. col_id r \<noteq> i) rs = rs"
      by (simp add: rows_def filter_absent_id)
    ultimately show ?thesis
      by (simp add: tabel_update_same [OF rs])
  qed
qed

text \<open>
  C5. \<^verbatim>\<open>hapus_transaksi\<close> returns \<^verbatim>\<open>True\<close> whenever the connection opens and the
  \<^verbatim>\<open>DELETE\<close> executes, also for an identifier that no row has; and deleting an identifier
  that no row has leaves the file, and with it every total, as it was.
\<close>

theorem hapus_transaksi_absent:
  "(online db \<and> cursor_execute db (DeleteTransaksi i) = Inr (db', cur) \<longrightarrow>
      fst (hapus_transaksi db i) = Inr (PyBool True)) \<and>
   (online db \<and> tabel db = Some rs \<and> i \<notin> col_id ` set rs \<and>
    - max_rowid - 1 \<le> i \<and> i \<le> max_rowid \<longrightarrow>
      hapus_transaksi db i = (Inr (PyBool True), db)) \<and>
   (i \<notin> col_id ` set (rows db) \<longrightarrow>
      snd (hapus_transaksi db i) = db \<and>
      rows (snd (hapus_transaksi db i)) = rows db \<and>
      hitung_total_pengeluaran (snd (hapus_transaksi db i)) tgl =
        hitung_total_pengeluaran db tgl)"
proof (intro conjI impI)
  assume "online db \<and> cursor_execute db (DeleteTransaksi i) = Inr (db', cur)"
  then show "fst (hapus_transaksi db i) = Inr (PyBool True)"
    by (simp add: hapus_transaksi_def execute_query_plain)
next
  assume a: "online db \<and> tabel db = Some rs \<and> i \<notin> col_id ` set rs \<and>
    - max_rowid - 1 \<le> i \<and> i \<le> max_rowid"
  then have "hapus_transaksi db i =
      (Inr (PyBool True), db\<lparr>tabel := Some (filter (\<lambda>r. col_id r \<noteq> i) rs)\<rparr>)"
    by (intro hapus_available) simp_all
  with a show "hapus_transaksi db i = (Inr (PyBool True), db)"
    by (simp add: filter_absent_id tabel_update_same)
next
  assume a: "i \<notin> col_id ` set (rows db)"
  show "snd (hapus_transaksi db i) = db"
    and "rows (snd (hapus_transaksi db i)) = rows db"
    and "hitung_total_pengeluaran (snd (hapus_transaksi db i)) tgl =
        hitung_total_pengeluaran db tgl"
    by (simp_all add: hapus_absent_unchanged [OF a])
qed

lemma ids_ledger: "col_id ` set [lunch_row, bus_row] = {1, 2}"
  by (auto simp: lunch_row_def bus_row_def)

theorem hapus_transaksi_absent_witness:
  "online ledger \<and>
   cursor_execute ledger (DeleteTransaksi 999999) = Inr (ledger, no_rows) \<and>
   tabel ledger = Some [lunch_row, bus_row] \<and>
   999999 \<notin> col_id ` set [lunch_row, bus_row] \<and>
   999999 \<notin> col_id ` set (rows ledger) \<and>
   - max_rowid - 1 \<le> 999999 \<and> 999999 \<le> max_rowid \<and>
   hapus_transaksi ledger 999999 = (Inr (PyBool True), ledger) \<and>
   hitung_total_pengeluaran (snd (hapus_transaksi ledger 999999)) None =
     hitung_total_pengeluaran ledger None"
proof -
  have h: "online ledger" "tabel ledger = Some [lunch_row, bus_row]"
    by (simp_all add: ledger_def)
  have r: "rows ledger = [lunch_row, bus_row]"
    by (simp add: rows_def h)
  have n: "999999 \<notin> col_id ` set [lunch_row, bus_row]"
    unfolding ids_ledger by simp
  have b: "- max_rowid - 1 \<le> 999999" "999999 \<le> max_rowid"
    by (simp_all add: max_rowid_def)
  have "filter (\<lambda>r. col_id r \<noteq> 999999) [lunch_row, bus_row] = [lunch_row, bus_row]"
    using n by (rule filter_absent_id)
  then have c: "cursor_execute ledger (DeleteTransaksi 999999) = Inr (ledger, no_rows)"
    using b by (simp add: h tabel_update_same [OF h(2)])
  note t = hapus_transaksi_absent [where db = ledger and i = 999999 and db' = ledger
      and cur = no_rows and rs = "[lunch_row, bus_row]" and tgl = None]
  from t h n b have "hapus_transaksi ledger 999999 = (Inr (PyBool True), ledger)"
    by blast
  moreover from t n r
  have "hitung_total_pengeluaran (snd (hapus_transaksi ledger 999999)) None =
      hitung_total_pengeluaran ledger None"
    by metis
  ultimately show ?thesis
    using h r n b c by simp
qed


section \<open>Failures that look like empty results\<close>

lemma float_per_kategori_Nil: "float_per_kategori [] = []"
  by (simp add: float_per_kategori_def kategori_terpakai_def)

text \<open>
  C10. When the storage call fails (the file cannot be opened, or the table is missing),
  \<^verbatim>\<open>hitung_total_pengeluaran\<close> returns \<^verbatim>\<open>0.0\<close> and \<^verbatim>\<open>get_pengeluaran_per_kategori\<close>
  returns the empty dict: exactly what they return on a readable table without a matching
  row. The listing, on the same two files, returns \<^verbatim>\<open>None\<close> and a frame.
\<close>

theorem aggregates_hide_failure:
  assumes "\<not> online db \<or> tabel db = None"
    and "online db'" and "tabel db' = Some rs" and "given tgl" and "matching tgl rs = []"
  shows "fst (hitung_total_pengeluaran db tgl) = Inr (PyFloat 0) \<and>
         fst (get_pengeluaran_per_kategori db tgl) = Inr [] \<and>
         fst (hitung_total_pengeluaran db' tgl) = fst (hitung_total_pengeluaran db tgl) \<and>
         fst (get_pengeluaran_per_kategori db' tgl) = fst (get_pengeluaran_per_kategori db tgl) \<and>
         fst (get_dataframe_transaksi db) = None \<and>
         (rs = [] \<longrightarrow> fst (get_dataframe_transaksi db') = Some [])"
proof -
  have "hitung_total_pengeluaran db' tgl = (Inr (PyFloat 0), db')"
    using hitung_total_matching [OF assms(2,3,4)] assms(5) by (simp add: float_total_Nil)
  moreover have "get_pengeluaran_per_kategori db' tgl = (Inr [], db')"
    using per_kategori_matching [OF assms(2,3,4)] assms(5) by (simp add: float_per_kategori_Nil)
  moreover have "rs = [] \<longrightarrow> fst (get_dataframe_transaksi db') = Some []"
    using get_dataframe_empty [OF assms(2)] assms(3) by simp
  ultimately show ?thesis
    by (simp add: hitung_total_unavailable [OF assms(1)] per_kategori_unavailable [OF assms(1)]
        get_dataframe_unavailable [OF assms(1)])
qed

theorem aggregates_hide_failure_witness:
  "\<not> online (new_file False) \<and>
   online (AnggaranHarian (new_file True)) \<and>
   tabel (AnggaranHarian (new_file True)) = Some [] \<and>
   given None \<and> matching None [] = [] \<and>
   fst (hitung_total_pengeluaran (new_file False) None) = Inr (PyFloat 0) \<and>
   fst (get_pengeluaran_per_kategori (new_file False) None) = Inr [] \<and>
   fst (hitung_total_pengeluaran (AnggaranHarian (new_file True)) None) = Inr (PyFloat 0) \<and>
   fst (get_pengeluaran_per_kategori (AnggaranHarian (new_file True)) None) = Inr [] \<and>
   fst (get_dataframe_transaksi (new_file False)) = None \<and>
   fst (get_dataframe_transaksi (AnggaranHarian (new_file True))) = Some []"
proof -
  have f: "\<not> online (new_file False) \<or> tabel (new_file False) = None"
    by (simp add: new_file_def)
  have a: "online (AnggaranHarian (new_file True))"
    "tabel (AnggaranHarian (new_file True)) = Some []"
    by (simp_all add: AnggaranHarian_new_file)
  have g: "given None" "matching None [] = []"
    by (simp_all add: given_def matching_def)
  from aggregates_hide_failure [OF f a g] show ?thesis
    using a g by (simp add: new_file_def)
qed


section \<open>The order of the listing\<close>

lemma precedes_irrefl: "\<not> precedes r r"
  by (simp add: precedes_def)

















section \<open>Stored dates compare as the calendar does\<close>











section \<open>What the listing shows\<close>











section \<open>The listing of the scenario\<close>




lemma round_half_even_whole: "round_half_even (of_nat n) = n"
  by (simp add: round_half_even_def)














lemma strftime_kemarin: "strftime_ymd kemarin = ''2024-01-09''"
  by (simp add: kemarin_def strftime_ymd_def decimal.simps pad2_def digit_chars)





lemma strftime_dmy_kemarin: "strftime_dmy kemarin = ''09-01-2024''"
  by (simp add: kemarin_def strftime_dmy_def pad4_def pad2_def digit_chars)

lemma grouped_15000: "grouped 15000 = ''15.000''"
  by (simp add: grouped.simps decimal.simps pad3_def digit_chars)

lemma format_jumlah_15000: "format_jumlah 15000 = ''15.000''"
  using round_half_even_whole [of 15000] by (simp add: format_jumlah_def grouped_15000)


lemma tambah_sarapan: "tambah_transaksi ledger sarapan = (Inr True, ledger3)"
  by (simp add: tambah_transaksi_def insert_transaksi_def execute_query_def enter_def
      largest_rowid_def max_rowid_def ledger_def ledger3_def)
    (simp add: sarapan_def sarapan_row_def lunch_row_def bus_row_def strftime_kemarin)

lemma ledger3_run:
  "run (AnggaranHarian (new_file True)) [Tambah lunch, Tambah bus, Tambah sarapan] = ledger3"
  by (simp add: AnggaranHarian_new_file tambah_lunch tambah_bus tambah_sarapan)









section \<open>A listing that is not in the order of the dates\<close>

lemma strftime_kuno: "strftime_ymd kuno = ''5-01-01''"
  by (simp add: kuno_def strftime_ymd_def decimal.simps pad2_def digit_chars)

lemma valid_kuno: "valid_date kuno"
  by (simp add: kuno_def valid_date_def days_in_month_def)

lemma row_date_prasasti_row: "row_date prasasti_row = Some kuno"
  using parse_ymd_strftime [OF valid_kuno]
  by (simp add: row_date_def prasasti_row_def strftime_kuno)








section \<open>Deleting a stored row\<close>







lemma exact_amounts_member:
  assumes "exact_amounts rs" and "r \<in> set rs"
  shows "whole (col_jumlah r)"
  using assms by (simp add: exact_amounts_def list_all_iff)




section \<open>A deletion that leaves the total as it was\<close>




section \<open>Identifiers along a run\<close>

lemma insert_transaksi_cases:
  obtains (failed) "insert_transaksi db tx = (Inr PyNone, db)"
  | (stored) rs where "tabel db = Some rs"
      and "insert_transaksi db tx =
        (Inr (PyInt (largest_rowid rs (sequence db) + 1)),
         db\<lparr>tabel := Some (rs @ [\<lparr>col_id = largest_rowid rs (sequence db) + 1,
                                    col_deskripsi = deskripsi tx, col_jumlah = jumlah tx,
                                    col_kategori = kategori tx,
                                    col_tanggal = strftime_ymd (tanggal tx)\<rparr>]),
            sequence := largest_rowid rs (sequence db) + 1\<rparr>)"
proof (cases "online db \<and> tabel db \<noteq> None")
  case False
  then have "insert_transaksi db tx = (Inr PyNone, db)"
    by (auto simp: insert_transaksi_def execute_query_offline execute_query_no_table
        on_exception_sqlite)
  then show ?thesis by (rule failed)
next
  case True
  then obtain rs where on: "online db" and rs: "tabel db = Some rs" by auto
  show ?thesis
  proof (cases "largest_rowid rs (sequence db) < max_rowid")
    case True
    from execute_query_insert [OF on cursor_execute_insert [OF rs True]]
    show ?thesis
      by (intro stored [OF rs]) (simp add: insert_transaksi_def)
  next
    case False
    then have "cursor_execute db
        (InsertTransaksi (deskripsi tx) (jumlah tx) (kategori tx) (strftime_ymd (tanggal tx))) =
        Inl Sqlite3Error"
      using rs by (simp add: Let_def)
    from execute_query_raises [OF on this] have "insert_transaksi db tx = (Inr PyNone, db)"
      by (simp add: insert_transaksi_def on_exception_sqlite)
    then show ?thesis by (rule failed)
  qed
qed

lemma hapus_transaksi_cases:
  obtains (unchanged) "snd (hapus_transaksi db i) = db"
  | (deleted) rs where "tabel db = Some rs"
      and "snd (hapus_transaksi db i) = db\<lparr>tabel := Some (filter (\<lambda>r. col_id r \<noteq> i) rs)\<rparr>"
proof (cases "online db \<and> tabel db \<noteq> None")
  case False
  then have "snd (hapus_transaksi db i) = db"
    by (simp add: hapus_unavailable)
  then show ?thesis by (rule unchanged)
next
  case True
  then obtain rs where on: "online db" and rs: "tabel db = Some rs" by auto
  show ?thesis
  proof (cases "i < - max_rowid - 1 \<or> max_rowid < i")
    case True
    then have "snd (hapus_transaksi db i) = db"
      by (simp add: hapus_overflow [OF on rs])
    then show ?thesis by (rule unchanged)
  next
    case False
    then have "hapus_transaksi db i =
        (Inr (PyBool True), db\<lparr>tabel := Some (filter (\<lambda>r. col_id r \<noteq> i) rs)\<rparr>)"
      by (intro hapus_available [OF on rs]) simp_all
    then show ?thesis
      by (intro deleted [OF rs]) simp
  qed
qed

lemma rows_AnggaranHarian: "rows (AnggaranHarian db) = rows db"
  by (cases "tabel db")
    (auto simp: AnggaranHarian_def buat_tabel_jika_tidak_ada_def execute_query_def enter_def
      on_exception_def rows_def)

lemma sequence_AnggaranHarian: "sequence (AnggaranHarian db) = sequence db"
  by (cases "tabel db")
    (auto simp: AnggaranHarian_def buat_tabel_jika_tidak_ada_def execute_query_def enter_def
      on_exception_def)

lemma step_distinct:
  assumes "distinct (map col_id (rows db))"
  shows "distinct (map col_id (rows (step db a)))"
proof (cases a)
  case (Tambah tx)
  show ?thesis
  proof (cases rule: insert_transaksi_cases [where db = db and tx = tx])
    case failed
    with assms Tambah show ?thesis by (simp add: tambah_transaksi_def)
  next
    case (stored rs)
    with assms Tambah largest_rowid_fresh [of rs "sequence db"] show ?thesis
      by (simp add: tambah_transaksi_def rows_def)
  qed
next
  case (Hapus i)
  show ?thesis
  proof (cases rule: hapus_transaksi_cases [where db = db and i = i])
    case unchanged
    with assms Hapus show ?thesis by simp
  next
    case (deleted rs)
    with assms Hapus show ?thesis
      by (simp add: rows_def distinct_map_filter)
  qed
next
  case (Gangguan b)
  with assms show ?thesis by (simp add: rows_def)
next
  case Buka
  with assms show ?thesis by (simp add: rows_AnggaranHarian)
qed

lemma step_sequence: "sequence db \<le> sequence (step db a)"
proof (cases a)
  case (Tambah tx)
  show ?thesis
  proof (cases rule: insert_transaksi_cases [where db = db and tx = tx])
    case failed
    with Tambah show ?thesis by (simp add: tambah_transaksi_def)
  next
    case (stored rs)
    with Tambah le_largest_rowid [of "sequence db" rs] show ?thesis
      by (simp add: tambah_transaksi_def)
  qed
next
  case (Hapus i)
  then show ?thesis
    by (cases rule: hapus_transaksi_cases [where db = db and i = i]) simp_all
next
  case (Gangguan b)
  then show ?thesis by simp
next
  case Buka
  then show ?thesis by (simp add: sequence_AnggaranHarian)
qed

lemma returned_id_fresh:
  assumes "i \<in> set (returned_id db a)"
  shows "sequence db < i \<and> i \<le> sequence (step db a)"
proof (cases a)
  case (Tambah tx)
  show ?thesis
  proof (cases rule: insert_transaksi_cases [where db = db and tx = tx])
    case failed
    with assms Tambah show ?thesis by simp
  next
    case (stored rs)
    with assms Tambah le_largest_rowid [of "sequence db" rs] show ?thesis
      by (simp add: tambah_transaksi_def)
  qed
next
  case (Hapus i)
  with assms show ?thesis by simp
next
  case (Gangguan b)
  with assms show ?thesis by simp
next
  case Buka
  with assms show ?thesis by simp
qed

lemma step_ids:
  "col_id ` set (rows (step db a)) \<subseteq> col_id ` set (rows db) \<union> set (returned_id db a)"
proof (cases a)
  case (Tambah tx)
  show ?thesis
  proof (cases rule: insert_transaksi_cases [where db = db and tx = tx])
    case failed
    with Tambah show ?thesis by (simp add: tambah_transaksi_def)
  next
    case (stored rs)
    with Tambah show ?thesis
      by (auto simp: tambah_transaksi_def rows_def)
  qed
next
  case (Hapus i)
  then show ?thesis
    by (cases rule: hapus_transaksi_cases [where db = db and i = i]) (auto simp: rows_def)
next
  case (Gangguan b)
  then show ?thesis by (simp add: rows_def)
next
  case Buka
  then show ?thesis by (simp add: rows_AnggaranHarian)
qed

lemma run_distinct:
  "distinct (map col_id (rows db)) \<Longrightarrow> distinct (map col_id (rows (run db ops)))"
  by (induction ops arbitrary: db) (simp_all add: step_distinct)

lemma assigned_above: "i \<in> set (assigned db ops) \<Longrightarrow> sequence db < i"
proof (induction ops arbitrary: db)
  case Nil
  then show ?case by simp
next
  case (Cons a ops)
  from Cons.prems consider "i \<in> set (returned_id db a)" | "i \<in> set (assigned (step db a) ops)"
    by auto
  then show ?case
  proof cases
    case 1
    then show ?thesis by (simp add: returned_id_fresh)
  next
    case 2
    then have "sequence (step db a) < i" by (rule Cons.IH)
    with step_sequence [of db a] show ?thesis by simp
  qed
qed

lemma returned_id_short: "length (returned_id db a) \<le> 1"
  by (cases a) (auto split: sum.splits pyval.splits)

lemma assigned_increasing: "sorted_wrt (<) (assigned db ops)"
proof (induction ops arbitrary: db)
  case Nil
  then show ?case by simp
next
  case (Cons a ops)
  have "sorted_wrt (<) (returned_id db a)"
    using returned_id_short [of db a] by (cases "returned_id db a") simp_all
  moreover have "i < j" if "i \<in> set (returned_id db a)" "j \<in> set (assigned (step db a) ops)"
    for i j
    using returned_id_fresh [OF that(1)] assigned_above [OF that(2)] by simp
  ultimately show ?case
    by (simp add: sorted_wrt_append Cons.IH)
qed

lemma run_ids:
  "col_id ` set (rows (run db ops)) \<subseteq> col_id ` set (rows db) \<union> set (assigned db ops)"
proof (induction ops arbitrary: db)
  case Nil
  then show ?case by simp
next
  case (Cons a ops)
  have "col_id ` set (rows (run (step db a) ops)) \<subseteq>
      col_id ` set (rows (step db a)) \<union> set (assigned (step db a) ops)"
    by (rule Cons.IH)
  with step_ids [of db a] show ?case by (simp add: subset_iff) blast
qed

lemma rows_new_ledger: "rows (AnggaranHarian (new_file b)) = []"
  by (simp add: rows_AnggaranHarian) (simp add: rows_def new_file_def)

text \<open>
  C8. Start the program on a new file and let it add and delete in any order, with the file
  unreadable at times and the program started again at times. The identifiers of the stored
  rows are always distinct, every one of them was returned by an insertion of the run, and
  the identifiers that the insertions return grow strictly: none is ever returned twice,
  whether or not its row was deleted in between.
\<close>

theorem id_never_reused:
  "distinct (map col_id (rows (run (AnggaranHarian (new_file b)) ops))) \<and>
   sorted_wrt (<) (assigned (AnggaranHarian (new_file b)) ops) \<and>
   distinct (assigned (AnggaranHarian (new_file b)) ops) \<and>
   col_id ` set (rows (run (AnggaranHarian (new_file b)) ops)) \<subseteq>
     set (assigned (AnggaranHarian (new_file b)) ops)"
proof (intro conjI)
  show "distinct (map col_id (rows (run (AnggaranHarian (new_file b)) ops)))"
    by (rule run_distinct) (simp add: rows_new_ledger)
  show s: "sorted_wrt (<) (assigned (AnggaranHarian (new_file b)) ops)"
    by (rule assigned_increasing)
  then show "distinct (assigned (AnggaranHarian (new_file b)) ops)"
    by (simp add: strict_sorted_iff)
  show "col_id ` set (rows (run (AnggaranHarian (new_file b)) ops)) \<subseteq>
     set (assigned (AnggaranHarian (new_file b)) ops)"
    using run_ids [of "AnggaranHarian (new_file b)" ops] by (simp add: rows_new_ledger)
qed


section \<open>Adding, then listing\<close>





section \<open>The scenario continued: listing after adding, and identifiers after deleting\<close>


lemma tambah_bus_after_lunch: "tambah_transaksi after_lunch bus = (Inr True, ledger)"
  unfolding after_lunch_def by (rule tambah_bus)









lemma hapus_after_lunch:
  "hapus_transaksi after_lunch 1 = (Inr (PyBool True), \<lparr>online = True, tabel = Some [], sequence = 1\<rparr>)"
proof -
  have "online after_lunch" "tabel after_lunch = Some [lunch_row]"
    "- max_rowid - 1 \<le> 1" "1 \<le> max_rowid"
    by (simp_all add: after_lunch_def max_rowid_def)
  from hapus_available [OF this] show ?thesis
    by (simp add: after_lunch_def lunch_row_def)
qed

lemma tambah_bus_after_hapus:
  "tambah_transaksi \<lparr>online = True, tabel = Some [], sequence = 1\<rparr> bus =
     (Inr True, \<lparr>online = True, tabel = Some [bus_row], sequence = 2\<rparr>)"
  by (simp add: tambah_transaksi_def insert_transaksi_def execute_query_def enter_def
      largest_rowid_def max_rowid_def bus_def bus_row_def strftime_hari)

theorem id_never_reused_witness:
  "assigned (AnggaranHarian (new_file True)) [Tambah lunch, Hapus 1, Tambah bus] = [1, 2] \<and>
   map col_id (rows (run (AnggaranHarian (new_file True)) [Tambah lunch, Hapus 1, Tambah bus])) = [2] \<and>
   distinct (assigned (AnggaranHarian (new_file True)) [Tambah lunch, Hapus 1, Tambah bus]) \<and>
   sorted_wrt (<) (assigned (AnggaranHarian (new_file True)) [Tambah lunch, Hapus 1, Tambah bus])"
proof -
  have 1: "insert_transaksi \<lparr>online = True, tabel = Some [], sequence = 0\<rparr> lunch =
      (Inr (PyInt 1), after_lunch)"
    by (simp add: insert_transaksi_def execute_query_def enter_def largest_rowid_def
        max_rowid_def lunch_def lunch_row_def after_lunch_def strftime_hari)
  have 2: "insert_transaksi \<lparr>online = True, tabel = Some [], sequence = 1\<rparr> bus =
      (Inr (PyInt 2), \<lparr>online = True, tabel = Some [bus_row], sequence = 2\<rparr>)"
    by (simp add: insert_transaksi_def execute_query_def enter_def largest_rowid_def
        max_rowid_def bus_def bus_row_def strftime_hari)
  have a: "assigned (AnggaranHarian (new_file True)) [Tambah lunch, Hapus 1, Tambah bus] = [1, 2]"
    by (simp add: AnggaranHarian_new_file 1 2 tambah_transaksi_def hapus_after_lunch)
  have r: "map col_id (rows (run (AnggaranHarian (new_file True))
      [Tambah lunch, Hapus 1, Tambah bus])) = [2]"
    by (simp add: AnggaranHarian_new_file 1 2 tambah_transaksi_def hapus_after_lunch rows_def
        bus_row_def)
  from id_never_reused [of True "[Tambah lunch, Hapus 1, Tambah bus]"] a r show ?thesis
    by simp
qed

end
